theory Spec2Isabelle
  imports Main "HOL-Library.Word"
begin

section \<open>The measurement table of DIPlib (\<open>dip::Measurement\<close>)\<close>

text \<open>
  The declarations of \<open>measurement.h\<close> are embedded as they are written. Every
  \<open>DIP_THROW_IF\<close> of the header becomes a branch that returns \<open>Inl\<close> of the error raised
  there; a member function that changes the object returns the object as the exception or the
  normal return leaves it, next to the outcome.
\<close>

subsection \<open>Errors\<close>

text \<open>
  One constructor for each message the header throws; the part of a message that is built from
  an argument is the constructor's argument.
  \<^item> \<open>MeasurementObjectIsForged\<close>: "Measurement object is forged."
  \<^item> \<open>NoFeatureNameGiven\<close>: "No feature name given."
  \<^item> \<open>FeatureAlreadyPresent name\<close>: "Feature already present: " + name
  \<^item> \<open>FeatureNeedsAtLeastOneValue\<close>: "A feature needs at least one value."
  \<^item> \<open>ObjectAlreadyPresent id\<close>: "Object already present: " + to_string( id )
  \<^item> \<open>ForgeZeroSizedTable\<close>: "Attempting to forge a zero-sized table."
  \<^item> \<open>MeasurementObjectNotForged\<close>: "Measurement object not forged."
  \<^item> \<open>FeatureNotPresent name\<close>: "Feature not present: " + name
  \<^item> \<open>ObjectNotPresent id\<close>: "Object not present: " + to_string( id )
  \<^item> \<open>NotScalar\<close>: \<open>E::NOT_SCALAR\<close>
\<close>

datatype error =
    MeasurementObjectIsForged
  | NoFeatureNameGiven
  | FeatureAlreadyPresent string
  | FeatureNeedsAtLeastOneValue
  | ObjectAlreadyPresent nat
  | ForgeZeroSizedTable
  | MeasurementObjectNotForged
  | FeatureNotPresent string
  | ObjectNotPresent nat
  | NotScalar

subsection \<open>Machine arithmetic and containers\<close>

text \<open>
  \<open>dip::uint\<close> is the platform's \<open>std::size_t\<close>, taken as 64 bits wide. Sizes of vectors are
  natural numbers; a sum of two vector sizes stays below \<open>2^64\<close> because each vector is bounded
  by its \<open>max_size()\<close>, but a product of two sizes need not, so products wrap.
\<close>

definition uint_mul :: "nat \<Rightarrow> nat \<Rightarrow> nat" where
  "uint_mul a b = (a * b) mod 2 ^ 64"

text \<open>\<open>std::map::emplace\<close> inserts only when the key is absent.\<close>

definition emplace :: "('k \<rightharpoonup> 'a) \<Rightarrow> 'k \<Rightarrow> 'a \<Rightarrow> ('k \<rightharpoonup> 'a)" where
  "emplace m k v = (case m k of None \<Rightarrow> m(k \<mapsto> v) | Some _ \<Rightarrow> m)"

text \<open>\<open>std::vector::resize( n )\<close>: truncates, or pads with value-initialised elements.\<close>

definition resize :: "'a::zero list \<Rightarrow> nat \<Rightarrow> 'a list" where
  "resize xs n = take n xs @ replicate (n - length xs) 0"

subsection \<open>Data\<close>

text \<open>
  \<open>Units\<close> is declared outside the header and is a type parameter \<open>'u\<close>. The value type
  \<open>dfloat\<close> is a type parameter \<open>'v\<close> with a zero, the value of a value-initialised element.
  The field \<open>name\<close> of \<open>ValueInformation\<close> and of \<open>FeatureInfo\<close> is written \<open>vname\<close> and
  \<open>fname\<close>; a member whose C++ name ends in an underscore carries a prime after it
  (\<open>data_\<close> is \<open>data_'\<close>).
\<close>

record 'u ValueInformation =
  vname :: string
  units :: 'u

type_synonym 'u ValueInformationArray = "'u ValueInformation list"

record FeatureInfo =
  fname :: string
  startColumn :: nat
  numberValues :: nat

record ('u, 'v) Measurement =
  objects_' :: "nat list"
  objectIndices_' :: "nat \<rightharpoonup> nat"
  features_' :: "FeatureInfo list"
  values_' :: "'u ValueInformationArray"
  featureIndices_' :: "string \<rightharpoonup> nat"
  data_' :: "'v list"

text \<open>The implicitly defined default constructor: every container is empty.\<close>

definition Measurement_init :: "('u, 'v) Measurement" where
  "Measurement_init =
     \<lparr> objects_' = [], objectIndices_' = Map.empty, features_' = [], values_' = [],
       featureIndices_' = Map.empty, data_' = [] \<rparr>"

subsection \<open>Predicates and accessors\<close>

definition IsForged :: "('u, 'v) Measurement \<Rightarrow> bool" where
  "IsForged m = (data_' m \<noteq> [])"

definition FeatureExists :: "string \<Rightarrow> ('u, 'v) Measurement \<Rightarrow> bool" where
  "FeatureExists name m = (featureIndices_' m name \<noteq> None)"

definition FeatureIndex :: "string \<Rightarrow> ('u, 'v) Measurement \<Rightarrow> error + nat" where
  "FeatureIndex name m =
     (case featureIndices_' m name of
        None \<Rightarrow> Inl (FeatureNotPresent name)
      | Some i \<Rightarrow> Inr i)"

definition ObjectExists :: "nat \<Rightarrow> ('u, 'v) Measurement \<Rightarrow> bool" where
  "ObjectExists objectID m = (objectIndices_' m objectID \<noteq> None)"

definition ObjectIndex :: "nat \<Rightarrow> ('u, 'v) Measurement \<Rightarrow> error + nat" where
  "ObjectIndex objectID m =
     (case objectIndices_' m objectID of
        None \<Rightarrow> Inl (ObjectNotPresent objectID)
      | Some i \<Rightarrow> Inr i)"

definition Objects :: "('u, 'v) Measurement \<Rightarrow> nat list" where
  "Objects m = objects_' m"

definition NumberOfObjects :: "('u, 'v) Measurement \<Rightarrow> nat" where
  "NumberOfObjects m = length (objects_' m)"

definition Features :: "('u, 'v) Measurement \<Rightarrow> FeatureInfo list" where
  "Features m = features_' m"

definition NumberOfFeatures :: "('u, 'v) Measurement \<Rightarrow> nat" where
  "NumberOfFeatures m = length (features_' m)"

definition NumberOfValues :: "('u, 'v) Measurement \<Rightarrow> nat" where
  "NumberOfValues m = length (values_' m)"

text \<open>\<open>ValueIndex( name )\<close> and \<open>NumberOfValues( name )\<close>; \<open>features_[ ... ]\<close> is not checked.\<close>

definition ValueIndex :: "string \<Rightarrow> ('u, 'v) Measurement \<Rightarrow> error + nat" where
  "ValueIndex name m =
     (case FeatureIndex name m of
        Inl e \<Rightarrow> Inl e
      | Inr i \<Rightarrow> Inr (startColumn (features_' m ! i)))"

definition NumberOfValues_of :: "string \<Rightarrow> ('u, 'v) Measurement \<Rightarrow> error + nat" where
  "NumberOfValues_of name m =
     (case FeatureIndex name m of
        Inl e \<Rightarrow> Inl e
      | Inr index \<Rightarrow> Inr (numberValues (features_' m ! index)))"

text \<open>
  A \<open>ValueIterator\<close> is a pointer into \<open>data_\<close>; it is modelled by its distance from
  \<open>data_.data()\<close>. \<open>Data\<close> throws on a table that is not forged; \<open>Stride\<close> has no
  \<open>DIP_THROW_IF\<close> and returns \<open>values_.size()\<close> on every table.
\<close>

type_synonym ValueIterator = nat

definition Data :: "('u, 'v) Measurement \<Rightarrow> error + ValueIterator" where
  "Data m = (if \<not> IsForged m then Inl MeasurementObjectNotForged else Inr 0)"

definition Stride :: "('u, 'v) Measurement \<Rightarrow> error + nat" where
  "Stride m = Inr (length (values_' m))"

subsection \<open>Building the table\<close>

text \<open>
  \<open>AddFeature_'\<close>: \<open>values_\<close> is resized by \<open>values.size()\<close> and the new places are assigned
  from \<open>values\<close> in order, which appends \<open>values\<close>.
\<close>

definition AddFeature_' ::
  "string \<Rightarrow> 'u ValueInformationArray \<Rightarrow> ('u, 'v) Measurement \<Rightarrow> ('u, 'v) Measurement" where
  "AddFeature_' name values m =
     (let startIndex = length (values_' m);
          index = length (features_' m)
      in m \<lparr> values_' := values_' m @ values,
             features_' := features_' m @
               [\<lparr> fname = name, startColumn = startIndex, numberValues = length values \<rparr>],
             featureIndices_' := emplace (featureIndices_' m) name index \<rparr>)"

definition AddFeature ::
  "string \<Rightarrow> 'u ValueInformationArray \<Rightarrow> ('u, 'v) Measurement
     \<Rightarrow> (error + unit) \<times> ('u, 'v) Measurement" where
  "AddFeature name values m =
     (if IsForged m then (Inl MeasurementObjectIsForged, m)
      else if name = [] then (Inl NoFeatureNameGiven, m)
      else if FeatureExists name m then (Inl (FeatureAlreadyPresent name), m)
      else if values = [] then (Inl FeatureNeedsAtLeastOneValue, m)
      else (Inr (), AddFeature_' name values m))"

definition EnsureFeature ::
  "string \<Rightarrow> 'u ValueInformationArray \<Rightarrow> ('u, 'v) Measurement
     \<Rightarrow> (error + unit) \<times> ('u, 'v) Measurement" where
  "EnsureFeature name values m =
     (if IsForged m then (Inl MeasurementObjectIsForged, m)
      else if name = [] then (Inl NoFeatureNameGiven, m)
      else if FeatureExists name m then (Inr (), m)
      else if values = [] then (Inl FeatureNeedsAtLeastOneValue, m)
      else (Inr (), AddFeature_' name values m))"

text \<open>The body of the range-for of \<open>AddObjectIDs\<close>; a throw leaves the loop with the table as it is.\<close>

fun AddObjectIDs_loop ::
  "nat list \<Rightarrow> ('u, 'v) Measurement \<Rightarrow> (error + unit) \<times> ('u, 'v) Measurement" where
  "AddObjectIDs_loop [] m = (Inr (), m)"
| "AddObjectIDs_loop (objectID # rest) m =
     (if ObjectExists objectID m then (Inl (ObjectAlreadyPresent objectID), m)
      else let index = length (objects_' m)
           in AddObjectIDs_loop rest
                (m \<lparr> objects_' := objects_' m @ [objectID],
                     objectIndices_' := emplace (objectIndices_' m) objectID index \<rparr>))"

definition AddObjectIDs ::
  "nat list \<Rightarrow> ('u, 'v) Measurement \<Rightarrow> (error + unit) \<times> ('u, 'v) Measurement" where
  "AddObjectIDs objectIDs m =
     (if IsForged m then (Inl MeasurementObjectIsForged, m)
      else AddObjectIDs_loop objectIDs m)"

definition Forge :: "('u, 'v::zero) Measurement \<Rightarrow> (error + unit) \<times> ('u, 'v) Measurement" where
  "Forge m =
     (if \<not> IsForged m then
        (let n = uint_mul (length (values_' m)) (length (objects_' m))
         in if n = 0 then (Inl ForgeZeroSizedTable, m)
            else (Inr (), m \<lparr> data_' := resize (data_' m) n \<rparr>))
      else (Inr (), m))"

subsection \<open>The two views\<close>

text \<open>
  An \<open>IteratorFeature\<close> holds a reference to the table and the index of a feature; its nested
  \<open>Iterator\<close> holds a reference to that view and the index of an object. \<open>IteratorObject\<close>
  and its nested \<open>Iterator\<close> are the same with the roles exchanged. The references are the
  table that is passed along; the indices are the constructors' arguments.
\<close>

datatype IteratorFeature = IteratorFeature (index_': nat)

datatype IteratorFeature_Iterator =
  IteratorFeature_Iterator (feature_': IteratorFeature) (index_': nat)

datatype IteratorObject = IteratorObject (index_': nat)

datatype IteratorObject_Iterator =
  IteratorObject_Iterator (object_': IteratorObject) (index_': nat)

text \<open>\<open>Measurement::operator[]( String const& name )\<close> and \<open>operator[]( dip::uint objectID )\<close>.\<close>

definition Measurement_at_name ::
  "('u, 'v) Measurement \<Rightarrow> string \<Rightarrow> error + IteratorFeature" where
  "Measurement_at_name m name =
     (case FeatureIndex name m of Inl e \<Rightarrow> Inl e | Inr i \<Rightarrow> Inr (IteratorFeature i))"

definition Measurement_at_object ::
  "('u, 'v) Measurement \<Rightarrow> nat \<Rightarrow> error + IteratorObject" where
  "Measurement_at_object m objectID =
     (case ObjectIndex objectID m of Inl e \<Rightarrow> Inl e | Inr i \<Rightarrow> Inr (IteratorObject i))"

text \<open>\<open>IteratorFeature::operator[]( dip::uint objectID )\<close> and \<open>IteratorObject::operator[]( String const& name )\<close>.\<close>

definition IteratorFeature_at ::
  "('u, 'v) Measurement \<Rightarrow> IteratorFeature \<Rightarrow> nat \<Rightarrow> error + IteratorFeature_Iterator" where
  "IteratorFeature_at m feature objectID =
     (case ObjectIndex objectID m of
        Inl e \<Rightarrow> Inl e
      | Inr i \<Rightarrow> Inr (IteratorFeature_Iterator feature i))"

definition IteratorObject_at ::
  "('u, 'v) Measurement \<Rightarrow> IteratorObject \<Rightarrow> string \<Rightarrow> error + IteratorObject_Iterator" where
  "IteratorObject_at m object name =
     (case FeatureIndex name m of
        Inl e \<Rightarrow> Inl e
      | Inr i \<Rightarrow> Inr (IteratorObject_Iterator object i))"

text \<open>
  \<open>begin()\<close> of the two nested iterators. The feature route starts from \<open>data_.data()\<close>, the
  object route from \<open>Data()\<close>, which throws on a table that is not forged. The product
  \<open>index_ * Stride()\<close> is computed in \<open>dip::uint\<close>; \<open>features_[ index_ ]\<close> is not checked.
\<close>

definition IteratorFeature_Iterator_begin ::
  "('u, 'v) Measurement \<Rightarrow> IteratorFeature_Iterator \<Rightarrow> error + ValueIterator" where
  "IteratorFeature_Iterator_begin m it =
     (case it of IteratorFeature_Iterator feature index \<Rightarrow>
        (case Stride m of
           Inl e \<Rightarrow> Inl e
         | Inr stride \<Rightarrow>
             Inr (0 + uint_mul index stride +
                  startColumn (features_' m ! IteratorFeature.index_' feature))))"

definition IteratorObject_Iterator_begin ::
  "('u, 'v) Measurement \<Rightarrow> IteratorObject_Iterator \<Rightarrow> error + ValueIterator" where
  "IteratorObject_Iterator_begin m it =
     (case it of IteratorObject_Iterator object index \<Rightarrow>
        (case Data m of
           Inl e \<Rightarrow> Inl e
         | Inr base \<Rightarrow>
             (case Stride m of
                Inl e \<Rightarrow> Inl e
              | Inr stride \<Rightarrow>
                  Inr (base + uint_mul (IteratorObject.index_' object) stride +
                       startColumn (features_' m ! index)))))"

text \<open>
  \<open>operator[]( dip::uint index )\<close> of the nested iterators is \<open>*( begin() + index )\<close>: the
  address, and the value stored there. An address outside the buffer has no value.
\<close>

definition deref :: "('u, 'v) Measurement \<Rightarrow> ValueIterator \<Rightarrow> 'v option" where
  "deref m p = (if p < length (data_' m) then Some (data_' m ! p) else None)"

definition IteratorFeature_Iterator_at ::
  "('u, 'v) Measurement \<Rightarrow> IteratorFeature_Iterator \<Rightarrow> nat \<Rightarrow> error + ValueIterator" where
  "IteratorFeature_Iterator_at m it index =
     (case IteratorFeature_Iterator_begin m it of Inl e \<Rightarrow> Inl e | Inr p \<Rightarrow> Inr (p + index))"

definition IteratorObject_Iterator_at ::
  "('u, 'v) Measurement \<Rightarrow> IteratorObject_Iterator \<Rightarrow> nat \<Rightarrow> error + ValueIterator" where
  "IteratorObject_Iterator_at m it index =
     (case IteratorObject_Iterator_begin m it of Inl e \<Rightarrow> Inl e | Inr p \<Rightarrow> Inr (p + index))"

text \<open>The expressions \<open>table[ name ][ id ][ k ]\<close> and \<open>table[ id ][ name ][ k ]\<close>.\<close>

definition feature_view_cell ::
  "('u, 'v) Measurement \<Rightarrow> string \<Rightarrow> nat \<Rightarrow> nat \<Rightarrow> error + ValueIterator" where
  "feature_view_cell m name objectID k =
     (case Measurement_at_name m name of
        Inl e \<Rightarrow> Inl e
      | Inr feature \<Rightarrow>
          (case IteratorFeature_at m feature objectID of
             Inl e \<Rightarrow> Inl e
           | Inr it \<Rightarrow> IteratorFeature_Iterator_at m it k))"

definition object_view_cell ::
  "('u, 'v) Measurement \<Rightarrow> nat \<Rightarrow> string \<Rightarrow> nat \<Rightarrow> error + ValueIterator" where
  "object_view_cell m objectID name k =
     (case Measurement_at_object m objectID of
        Inl e \<Rightarrow> Inl e
      | Inr object \<Rightarrow>
          (case IteratorObject_at m object name of
             Inl e \<Rightarrow> Inl e
           | Inr it \<Rightarrow> IteratorObject_Iterator_at m it k))"

subsection \<open>Sequences of calls\<close>

text \<open>
  A caller builds a table by calling the four mutators on a default-constructed object, in any
  order and with any arguments; a call that throws leaves the object as \<open>run\<close> passes it on.
  Once the table is forged the caller fills it through the pointers the table hands out:
  \<open>CallWrite p v\<close> is the assignment \<open>*p = v\<close> for a pointer \<open>p\<close> into the buffer (an
  assignment through a pointer outside the buffer is not followed).
\<close>

datatype ('u, 'v) call =
    CallAddFeature string "'u ValueInformationArray"
  | CallEnsureFeature string "'u ValueInformationArray"
  | CallAddObjectIDs "nat list"
  | CallForge
  | CallWrite ValueIterator 'v

fun perform ::
  "('u, 'v) call \<Rightarrow> ('u, 'v::zero) Measurement \<Rightarrow> (error + unit) \<times> ('u, 'v) Measurement" where
  "perform (CallAddFeature name values) m = AddFeature name values m"
| "perform (CallEnsureFeature name values) m = EnsureFeature name values m"
| "perform (CallAddObjectIDs objectIDs) m = AddObjectIDs objectIDs m"
| "perform CallForge m = Forge m"
| "perform (CallWrite p v) m =
     (if p < length (data_' m) then (Inr (), m \<lparr> data_' := (data_' m)[p := v] \<rparr>)
      else (Inr (), m))"

fun run :: "('u, 'v) call list \<Rightarrow> ('u, 'v::zero) Measurement \<Rightarrow> ('u, 'v) Measurement" where
  "run [] m = m"
| "run (c # cs) m = run cs (snd (perform c m))"

text \<open>The column groups of a list of features lie one after the other, starting at a column.\<close>

fun tiles_from :: "nat \<Rightarrow> FeatureInfo list \<Rightarrow> bool" where
  "tiles_from c [] = True"
| "tiles_from c (f # fs) = (startColumn f = c \<and> tiles_from (c + numberValues f) fs)"

subsection \<open>The invariant of the table\<close>

text \<open>
  For the proofs: what holds of every table that calls can build. The two maps are the
  inverses of the two vectors, which hold no identifier and no name twice; the column groups
  tile the row; every feature has a name and at least one value; and the buffer is empty or
  has the size that \<open>Forge\<close> computed.
\<close>

definition table_inv :: "('u, 'v) Measurement \<Rightarrow> bool" where
  "table_inv m \<longleftrightarrow>
     distinct (objects_' m) \<and>
     (\<forall>objectID i. objectIndices_' m objectID = Some i \<longleftrightarrow>
        i < length (objects_' m) \<and> objects_' m ! i = objectID) \<and>
     distinct (map fname (features_' m)) \<and>
     (\<forall>name i. featureIndices_' m name = Some i \<longleftrightarrow>
        i < length (features_' m) \<and> fname (features_' m ! i) = name) \<and>
     tiles_from 0 (features_' m) \<and>
     sum_list (map numberValues (features_' m)) = length (values_' m) \<and>
     (\<forall>f \<in> set (features_' m). fname f \<noteq> [] \<and> 0 < numberValues f) \<and>
     (data_' m = [] \<or>
        length (data_' m) = uint_mul (length (values_' m)) (length (objects_' m)))"


section \<open>The registry of features (\<open>dip::MeasurementTool\<close>)\<close>

datatype Type = LINE_BASED | IMAGE_BASED | CHAINCODE_BASED | CONVEXHULL_BASED | COMPOSITE

text \<open>The field \<open>name\<close> of \<open>Feature::Information\<close> is written \<open>iname\<close>.\<close>

record Information =
  iname :: string
  description :: string
  needsGreyValue :: bool

type_synonym InformationArray = "Information list"

text \<open>
  A \<open>Feature::Pointer\<close> owns an object of a class derived from \<open>Feature::Base\<close>: the two
  members of \<open>Base\<close> and, as \<open>derived\<close>, what the derived class adds, which tells two
  instances with the same information apart. \<open>Register\<close> dereferences its argument, so the
  pointer is not null.
\<close>

record 'f Base =
  information :: Information
  type :: Type
  derived :: 'f

text \<open>
  The members \<open>features_\<close> and \<open>featureIndices_\<close> of the tool carry the prefix \<open>tool_\<close>;
  \<open>Features()\<close> of the tool is \<open>MeasurementTool_Features\<close>.
\<close>

record 'f MeasurementTool =
  tool_features_' :: "'f Base list"
  tool_featureIndices_' :: "string \<rightharpoonup> nat"

definition Exists :: "string \<Rightarrow> 'f MeasurementTool \<Rightarrow> bool" where
  "Exists name tool = (tool_featureIndices_' tool name \<noteq> None)"

definition Register :: "'f Base \<Rightarrow> 'f MeasurementTool \<Rightarrow> 'f MeasurementTool" where
  "Register feature tool =
     (let name = iname (information feature)
      in if \<not> Exists name tool then
           (let index = length (tool_features_' tool)
            in tool \<lparr> tool_features_' := tool_features_' tool @ [feature],
                      tool_featureIndices_' := emplace (tool_featureIndices_' tool) name index \<rparr>)
         else tool)"

definition MeasurementTool_Features :: "'f MeasurementTool \<Rightarrow> InformationArray" where
  "MeasurementTool_Features tool = map information (tool_features_' tool)"

text \<open>
  Modelled from the spec: the constructor \<open>MeasurementTool()\<close> is declared in the header and
  defined elsewhere. It leaves a registry that holds the built-in catalog, which is the registry
  with both members empty after the features of the catalog have been registered.
\<close>

definition MeasurementTool_empty :: "'f MeasurementTool" where
  "MeasurementTool_empty = \<lparr> tool_features_' = [], tool_featureIndices_' = Map.empty \<rparr>"

text \<open>A sequence of calls of \<open>Register\<close>, in order.\<close>

fun Register_all :: "'f Base list \<Rightarrow> 'f MeasurementTool \<Rightarrow> 'f MeasurementTool" where
  "Register_all [] tool = tool"
| "Register_all (feature # rest) tool = Register_all rest (Register feature tool)"

text \<open>
  What the specification says survives a sequence of registrations: of the features given, in
  the order given, each one whose name no earlier one (and none of \<open>seen\<close>) carries.
\<close>

fun first_of_each_name :: "string list \<Rightarrow> 'f Base list \<Rightarrow> 'f Base list" where
  "first_of_each_name seen [] = []"
| "first_of_each_name seen (feature # rest) =
     (if iname (information feature) \<in> set seen then first_of_each_name seen rest
      else feature # first_of_each_name (iname (information feature) # seen) rest)"

section \<open>The feature "Mass" (\<open>dip::Feature::FeatureMass\<close>)\<close>

text \<open>
  The private members of \<open>FeatureMass\<close>; its vector \<open>data_\<close> is written \<open>mass_data_'\<close>.
  The grey values are of the type \<open>'v\<close>, of which only its zero and its addition are used:
  the accumulators are left folds of \<open>+\<close> in the order in which the pixels arrive.
\<close>

record 'v FeatureMass =
  nD_' :: nat
  mass_data_' :: "'v list"

text \<open>
  \<open>Initialize\<close> reads of the images whether \<open>grey\<close> is scalar and the dimensionality of
  \<open>label\<close>; these are its first two arguments. The units of the value it describes are
  default-constructed.
\<close>

definition Initialize ::
  "bool \<Rightarrow> nat \<Rightarrow> nat \<Rightarrow> 'v::zero FeatureMass
     \<Rightarrow> (error + 'u::default ValueInformationArray) \<times> 'v FeatureMass" where
  "Initialize grey_IsScalar label_Dimensionality nObjects self =
     (if \<not> grey_IsScalar then (Inl NotScalar, self)
      else (Inr [\<lparr> vname = ''Mass'', units = default \<rparr>],
            self \<lparr> nD_' := label_Dimensionality, mass_data_' := resize [] nObjects \<rparr>))"

text \<open>
  \<open>ObjectIdToIndexMap\<close> maps object identifiers (\<open>dip::uint\<close>) to row indices. A scan line is
  the list of its pixels, each the label (\<open>uint32\<close>) and the grey value that the two line
  iterators stand on together.

  The body of the \<open>do\<close> loop of \<open>ScanLine\<close> on one pixel, on the local variables \<open>objectID\<close>
  and \<open>data\<close> and the vector \<open>data_\<close>. The pointer \<open>data\<close> is \<open>None\<close> for \<open>nullptr\<close> and
  otherwise the index of the element of \<open>data_\<close> it points to; \<open>data_[ it->second ]\<close> is not
  checked, and the body has no result when that index is outside the vector.
\<close>

type_synonym ObjectIdToIndexMap = "nat \<rightharpoonup> nat"

definition ScanLine_body ::
  "ObjectIdToIndexMap \<Rightarrow> 32 word \<times> 'v::plus \<Rightarrow> 32 word \<times> nat option \<times> 'v list
     \<Rightarrow> (32 word \<times> nat option \<times> 'v list) option" where
  "ScanLine_body objectIndices pixel locals =
     (case pixel of (label, grey) \<Rightarrow>
      case locals of (objectID, data, data_vec) \<Rightarrow>
        if label > 0 then
          (case (if label \<noteq> objectID then
                   (case objectIndices (unat label) of
                      None \<Rightarrow> Some (label, None)
                    | Some i \<Rightarrow> if i < length data_vec then Some (label, Some i) else None)
                 else Some (objectID, data)) of
             None \<Rightarrow> None
           | Some (objectID', data') \<Rightarrow>
               (case data' of
                  None \<Rightarrow> Some (objectID', data', data_vec)
                | Some i \<Rightarrow> Some (objectID', data', data_vec[i := data_vec ! i + grey])))
        else Some (objectID, data, data_vec))"

text \<open>
  The \<open>do \<dots> while( ++label )\<close> loop: the body runs on the pixel the iterators stand on, then
  the iterators advance, and the loop ends when the line has no further pixel.
\<close>

fun ScanLine_loop ::
  "ObjectIdToIndexMap \<Rightarrow> 32 word \<times> 'v::plus \<Rightarrow> (32 word \<times> 'v) list
     \<Rightarrow> 32 word \<times> nat option \<times> 'v list \<Rightarrow> (32 word \<times> nat option \<times> 'v list) option" where
  "ScanLine_loop objectIndices pixel rest locals =
     (case ScanLine_body objectIndices pixel locals of
        None \<Rightarrow> None
      | Some locals' \<Rightarrow>
          (case rest of
             [] \<Rightarrow> Some locals'
           | next_pixel # rest' \<Rightarrow> ScanLine_loop objectIndices next_pixel rest' locals'))"

text \<open>
  \<open>ScanLine\<close>: \<open>objectID\<close> starts as 0 and \<open>data\<close> as \<open>nullptr\<close>. A line iterator stands on a
  pixel when the function is entered; the empty line has no result.
\<close>

definition ScanLine ::
  "(32 word \<times> 'v::plus) list \<Rightarrow> ObjectIdToIndexMap \<Rightarrow> 'v FeatureMass \<Rightarrow> 'v FeatureMass option" where
  "ScanLine line objectIndices self =
     (case line of
        [] \<Rightarrow> None
      | pixel # rest \<Rightarrow>
          (case ScanLine_loop objectIndices pixel rest (0, None, mass_data_' self) of
             None \<Rightarrow> None
           | Some (objectID, data, data_vec) \<Rightarrow> Some (self \<lparr> mass_data_' := data_vec \<rparr>)))"

text \<open>
  \<open>Finish\<close> assigns \<open>data_[ objectIndex ]\<close> to \<open>*output\<close>; the result is the value assigned,
  and there is none when the index is outside the vector.
\<close>

definition Finish :: "nat \<Rightarrow> 'v FeatureMass \<Rightarrow> 'v option" where
  "Finish objectIndex self =
     (if objectIndex < length (mass_data_' self) then Some (mass_data_' self ! objectIndex)
      else None)"

text \<open>
  Modelled from the spec: the scanline pass of the driver \<open>MeasurementTool::Measure\<close>, which
  is declared in the header and defined elsewhere. Each line of the image is presented to
  \<open>ScanLine\<close> once, one after the other, with the table's map from identifiers to row indices.
\<close>

fun ScanLines ::
  "(32 word \<times> 'v::plus) list list \<Rightarrow> ObjectIdToIndexMap \<Rightarrow> 'v FeatureMass
     \<Rightarrow> 'v FeatureMass option" where
  "ScanLines [] objectIndices self = Some self"
| "ScanLines (line # rest) objectIndices self =
     (case ScanLine line objectIndices self of
        None \<Rightarrow> None
      | Some self' \<Rightarrow> ScanLines rest objectIndices self')"

text \<open>
  The sum of the claim: the grey values of the pixels whose label is the identifier, added up
  from zero in the order of the pixels.
\<close>

definition mass_of :: "nat \<Rightarrow> (32 word \<times> 'v::{zero,plus}) list \<Rightarrow> 'v" where
  "mass_of objectID pixels =
     foldl (+) 0 (map snd (filter (\<lambda>pixel. unat (fst pixel) = objectID) pixels))"

text \<open>
  For the proofs: what one pixel does to the accumulators when the map is consulted for every
  pixel, without the remembered \<open>objectID\<close> and \<open>data\<close>.
\<close>

definition add_pixel ::
  "ObjectIdToIndexMap \<Rightarrow> 'v::plus list \<Rightarrow> 32 word \<times> 'v \<Rightarrow> 'v list" where
  "add_pixel objectIndices d pixel =
     (if 0 < fst pixel then
        (case objectIndices (unat (fst pixel)) of
           None \<Rightarrow> d
         | Some i \<Rightarrow> d[i := d ! i + snd pixel])
      else d)"

section \<open>Properties\<close>

lemma tiles_from_snoc:
  "tiles_from c (fs @ [f]) \<longleftrightarrow>
     tiles_from c fs \<and> startColumn f = c + sum_list (map numberValues fs)"
  by (induction fs arbitrary: c) (auto simp: add.assoc)

lemma table_inv_init: "table_inv Measurement_init"
  by (simp add: table_inv_def Measurement_init_def)

lemma table_inv_AddFeature_':
  assumes "table_inv m" "\<not> IsForged m" "name \<noteq> []" "\<not> FeatureExists name m" "values \<noteq> []"
  shows "table_inv (AddFeature_' name values m)"
proof -
  let ?f = "\<lparr> fname = name, startColumn = length (values_' m), numberValues = length values \<rparr>"
  from assms have absent: "featureIndices_' m name = None"
    by (simp add: FeatureExists_def)
  from assms(1) have idx: "\<forall>n i. featureIndices_' m n = Some i \<longleftrightarrow>
        i < length (features_' m) \<and> fname (features_' m ! i) = n"
    by (simp add: table_inv_def)
  have fresh: "name \<notin> fname ` set (features_' m)"
  proof
    assume "name \<in> fname ` set (features_' m)"
    then obtain i where "i < length (features_' m)" "fname (features_' m ! i) = name"
      by (auto simp: in_set_conv_nth)
    with idx have "featureIndices_' m name = Some i" by blast
    with absent show False by simp
  qed
  have idx': "\<forall>n i. (emplace (featureIndices_' m) name (length (features_' m))) n = Some i \<longleftrightarrow>
        i < length (features_' m @ [?f]) \<and> fname ((features_' m @ [?f]) ! i) = n"
  proof (intro allI)
    fix n i
    show "(emplace (featureIndices_' m) name (length (features_' m))) n = Some i \<longleftrightarrow>
        i < length (features_' m @ [?f]) \<and> fname ((features_' m @ [?f]) ! i) = n"
    proof (cases "n = name")
      case True
      have "\<not> (i < length (features_' m) \<and> fname (features_' m ! i) = name)"
        using fresh by (metis image_eqI nth_mem)
      then show ?thesis using True absent
        by (auto simp: emplace_def nth_append less_Suc_eq)
    next
      case False
      then show ?thesis using absent idx
        by (auto simp: emplace_def nth_append less_Suc_eq)
    qed
  qed
  show ?thesis
    using assms(1,2,3,5) fresh idx'
    unfolding table_inv_def AddFeature_'_def Let_def IsForged_def
    by (simp add: tiles_from_snoc)
qed

lemma table_inv_AddFeature: "table_inv m \<Longrightarrow> table_inv (snd (AddFeature name values m))"
  by (simp add: AddFeature_def table_inv_AddFeature_')

lemma table_inv_EnsureFeature: "table_inv m \<Longrightarrow> table_inv (snd (EnsureFeature name values m))"
  by (simp add: EnsureFeature_def table_inv_AddFeature_')

lemma table_inv_push_object:
  assumes "table_inv m" "\<not> IsForged m" "\<not> ObjectExists objectID m"
  shows "table_inv (m \<lparr> objects_' := objects_' m @ [objectID],
            objectIndices_' := emplace (objectIndices_' m) objectID (length (objects_' m)) \<rparr>)"
proof -
  from assms have absent: "objectIndices_' m objectID = None"
    by (simp add: ObjectExists_def)
  from assms(1) have idx: "\<forall>k i. objectIndices_' m k = Some i \<longleftrightarrow>
        i < length (objects_' m) \<and> objects_' m ! i = k"
    by (simp add: table_inv_def)
  have fresh: "objectID \<notin> set (objects_' m)"
  proof
    assume "objectID \<in> set (objects_' m)"
    then obtain i where "i < length (objects_' m)" "objects_' m ! i = objectID"
      by (auto simp: in_set_conv_nth)
    with idx have "objectIndices_' m objectID = Some i" by blast
    with absent show False by simp
  qed
  have idx': "\<forall>k i. (emplace (objectIndices_' m) objectID (length (objects_' m))) k = Some i \<longleftrightarrow>
        i < length (objects_' m @ [objectID]) \<and> (objects_' m @ [objectID]) ! i = k"
  proof (intro allI)
    fix k i
    show "(emplace (objectIndices_' m) objectID (length (objects_' m))) k = Some i \<longleftrightarrow>
        i < length (objects_' m @ [objectID]) \<and> (objects_' m @ [objectID]) ! i = k"
    proof (cases "k = objectID")
      case True
      have "\<not> (i < length (objects_' m) \<and> objects_' m ! i = objectID)"
        using fresh by (metis nth_mem)
      then show ?thesis using True absent
        by (auto simp: emplace_def nth_append less_Suc_eq)
    next
      case False
      then show ?thesis using absent idx
        by (auto simp: emplace_def nth_append less_Suc_eq)
    qed
  qed
  show ?thesis
    using assms(1,2) fresh idx'
    unfolding table_inv_def IsForged_def
    by simp
qed

lemma IsForged_push_object [simp]:
  "IsForged (m \<lparr> objects_' := os, objectIndices_' := oi \<rparr>) = IsForged m"
  by (simp add: IsForged_def)

lemma table_inv_AddObjectIDs_loop:
  "table_inv m \<Longrightarrow> \<not> IsForged m \<Longrightarrow> table_inv (snd (AddObjectIDs_loop objectIDs m))"
proof (induction objectIDs arbitrary: m)
  case Nil
  then show ?case by simp
next
  case (Cons objectID rest)
  show ?case
  proof (cases "ObjectExists objectID m")
    case True
    with Cons.prems show ?thesis by simp
  next
    case False
    with Cons.prems have "table_inv (m \<lparr> objects_' := objects_' m @ [objectID],
            objectIndices_' := emplace (objectIndices_' m) objectID (length (objects_' m)) \<rparr>)"
      by (simp add: table_inv_push_object)
    with Cons.IH [of "m \<lparr> objects_' := objects_' m @ [objectID],
            objectIndices_' := emplace (objectIndices_' m) objectID (length (objects_' m)) \<rparr>"]
      Cons.prems False
    show ?thesis by (simp add: Let_def)
  qed
qed

lemma table_inv_AddObjectIDs: "table_inv m \<Longrightarrow> table_inv (snd (AddObjectIDs objectIDs m))"
  by (simp add: AddObjectIDs_def table_inv_AddObjectIDs_loop)

lemma table_inv_Forge: "table_inv m \<Longrightarrow> table_inv (snd (Forge m))"
  by (auto simp: Forge_def Let_def IsForged_def resize_def table_inv_def)

lemma table_inv_write:
  "table_inv m \<Longrightarrow> table_inv (m \<lparr> data_' := (data_' m)[p := v] \<rparr>)"
  by (simp add: table_inv_def)

lemma table_inv_perform: "table_inv m \<Longrightarrow> table_inv (snd (perform c m))"
  by (cases c)
     (simp_all add: table_inv_AddFeature table_inv_EnsureFeature table_inv_AddObjectIDs
        table_inv_Forge table_inv_write)

lemma table_inv_run: "table_inv m \<Longrightarrow> table_inv (run cs m)"
  by (induction cs arbitrary: m) (simp_all add: table_inv_perform)

lemma table_inv_reachable: "table_inv (run cs Measurement_init)"
  by (simp add: table_inv_run table_inv_init)


lemma tiles_from_nth:
  "tiles_from c fs \<Longrightarrow> i < length fs \<Longrightarrow>
     startColumn (fs ! i) = c + sum_list (map numberValues (take i fs))"
proof (induction fs arbitrary: c i)
  case Nil
  then show ?case by simp
next
  case (Cons f fs)
  show ?case
  proof (cases i)
    case 0
    with Cons.prems show ?thesis by simp
  next
    case (Suc j)
    with Cons.prems Cons.IH [of "c + numberValues f" j] show ?thesis
      by (simp add: add.assoc)
  qed
qed

lemma table_inv_objectIndices:
  "table_inv m \<Longrightarrow>
     objectIndices_' m k = Some i \<longleftrightarrow> i < length (objects_' m) \<and> objects_' m ! i = k"
  unfolding table_inv_def by blast

lemma table_inv_featureIndices:
  "table_inv m \<Longrightarrow>
     featureIndices_' m n = Some i \<longleftrightarrow> i < length (features_' m) \<and> fname (features_' m ! i) = n"
  unfolding table_inv_def by blast

lemma table_inv_index_of_object:
  assumes "table_inv m" "i < length (objects_' m)"
  shows "ObjectIndex (objects_' m ! i) m = Inr i"
proof -
  have "objectIndices_' m (objects_' m ! i) = Some i"
    using table_inv_objectIndices [OF assms(1)] assms(2) by blast
  then show ?thesis by (simp add: ObjectIndex_def)
qed

lemma table_inv_objectIndices_inj:
  assumes "table_inv m"
  shows "inj_on (objectIndices_' m) (dom (objectIndices_' m))"
proof (rule inj_onI)
  fix a b
  assume "a \<in> dom (objectIndices_' m)" "b \<in> dom (objectIndices_' m)"
    and eq: "objectIndices_' m a = objectIndices_' m b"
  then obtain i where "objectIndices_' m a = Some i" "objectIndices_' m b = Some i"
    by auto
  with assms have "objects_' m ! i = a" "objects_' m ! i = b"
    by (simp_all add: table_inv_objectIndices)
  then show "a = b" by simp
qed

lemma table_inv_dom_objectIndices:
  assumes "table_inv m"
  shows "dom (objectIndices_' m) = set (objects_' m)"
proof -
  from assms have idx: "\<forall>k i. objectIndices_' m k = Some i \<longleftrightarrow>
        i < length (objects_' m) \<and> objects_' m ! i = k"
    by (simp add: table_inv_objectIndices)
  show ?thesis
  proof (intro set_eqI iffI)
    fix x assume "x \<in> dom (objectIndices_' m)"
    then obtain i where "objectIndices_' m x = Some i" by auto
    with idx show "x \<in> set (objects_' m)" by (metis nth_mem)
  next
    fix x assume "x \<in> set (objects_' m)"
    then obtain i where "i < length (objects_' m)" "objects_' m ! i = x"
      by (auto simp: in_set_conv_nth)
    with idx have "objectIndices_' m x = Some i" by blast
    then show "x \<in> dom (objectIndices_' m)" by auto
  qed
qed

lemma table_inv_present_name_nonempty:
  assumes "table_inv m" "FeatureExists name m"
  shows "name \<noteq> []"
proof -
  from assms(2) obtain i where "featureIndices_' m name = Some i"
    by (auto simp: FeatureExists_def)
  with assms(1) have "i < length (features_' m)" "fname (features_' m ! i) = name"
    by (simp_all add: table_inv_featureIndices)
  moreover from assms(1) have "\<forall>f \<in> set (features_' m). fname f \<noteq> []"
    by (simp add: table_inv_def)
  ultimately show ?thesis by (metis nth_mem)
qed

text \<open>The loop of \<open>AddObjectIDs\<close>.\<close>

lemma AddObjectIDs_loop_objects:
  "fst (AddObjectIDs_loop objectIDs m) = Inr () \<Longrightarrow>
     objects_' (snd (AddObjectIDs_loop objectIDs m)) = objects_' m @ objectIDs"
proof (induction objectIDs arbitrary: m)
  case Nil
  then show ?case by simp
next
  case (Cons objectID rest)
  then show ?case
    by (cases "ObjectExists objectID m") (simp_all add: Let_def)
qed

lemma ObjectExists_emplace:
  "ObjectExists x (m \<lparr> objects_' := os, objectIndices_' := emplace (objectIndices_' m) y i \<rparr>)
     \<longleftrightarrow> x = y \<or> ObjectExists x m"
  by (auto simp: ObjectExists_def emplace_def split: option.splits)


lemma AddObjectIDs_loop_present_fails:
  "\<exists>x \<in> set objectIDs. ObjectExists x m \<Longrightarrow>
     \<exists>x \<in> set objectIDs. fst (AddObjectIDs_loop objectIDs m) = Inl (ObjectAlreadyPresent x)"
proof (induction objectIDs arbitrary: m)
  case Nil
  then show ?case by simp
next
  case (Cons objectID rest)
  show ?case
  proof (cases "ObjectExists objectID m")
    case True
    then show ?thesis by simp
  next
    case False
    let ?m = "m \<lparr> objects_' := objects_' m @ [objectID],
                 objectIndices_' := emplace (objectIndices_' m) objectID (length (objects_' m)) \<rparr>"
    from Cons.prems False have "\<exists>x \<in> set rest. ObjectExists x m" by auto
    then have "\<exists>x \<in> set rest. ObjectExists x ?m"
      by (auto simp: ObjectExists_emplace)
    from Cons.IH [OF this] False show ?thesis by (simp add: Let_def)
  qed
qed

lemma AddObjectIDs_loop_success_iff:
  "fst (AddObjectIDs_loop objectIDs m) = Inr () \<longleftrightarrow>
     distinct objectIDs \<and> (\<forall>x \<in> set objectIDs. \<not> ObjectExists x m)"
proof (induction objectIDs arbitrary: m)
  case Nil
  then show ?case by simp
next
  case (Cons objectID rest)
  show ?case
  proof (cases "ObjectExists objectID m")
    case True
    then show ?thesis by simp
  next
    case False
    with Cons.IH [of "m \<lparr> objects_' := objects_' m @ [objectID],
                 objectIndices_' := emplace (objectIndices_' m) objectID (length (objects_' m)) \<rparr>"]
    show ?thesis by (auto simp: Let_def ObjectExists_emplace)
  qed
qed



lemma tiles_from_group_end:
  assumes "tiles_from c fs" "i < length fs"
  shows "startColumn (fs ! i) + numberValues (fs ! i) \<le> c + sum_list (map numberValues fs)"
proof -
  have "fs = take i fs @ fs ! i # drop (Suc i) fs"
    using assms(2) by (rule id_take_nth_drop)
  then have "sum_list (map numberValues fs) =
      sum_list (map numberValues (take i fs)) + numberValues (fs ! i) +
      sum_list (map numberValues (drop (Suc i) fs))"
    by (metis add.assoc list.simps(9) map_append sum_list.Cons sum_list.append)
  with tiles_from_nth [OF assms] show ?thesis by simp
qed

lemma cell_offset_in_buffer:
  fixes oi stride n sc nv k :: nat
  assumes "oi < n" "sc + nv \<le> stride" "k < nv"
  shows "oi * stride + sc + k < stride * n"
proof -
  have "oi * stride + sc + k < oi * stride + stride" using assms(2,3) by simp
  also have "\<dots> = Suc oi * stride" by simp
  also have "\<dots> \<le> n * stride" using assms(1) by (intro mult_le_mono1) simp
  finally show ?thesis by (simp add: mult.commute)
qed

subsection \<open>Tables too wide for \<open>dip::uint\<close>\<close>

lemma view_routes:
  assumes "IsForged m" "objectIndices_' m objectID = Some row"
    "featureIndices_' m name = Some fi"
  shows "feature_view_cell m name objectID k =
           Inr (uint_mul row (length (values_' m)) + startColumn (features_' m ! fi) + k)"
    and "object_view_cell m objectID name k =
           Inr (uint_mul row (length (values_' m)) + startColumn (features_' m ! fi) + k)"
  using assms
  by (simp_all add: feature_view_cell_def Measurement_at_name_def IteratorFeature_at_def
        IteratorFeature_Iterator_at_def IteratorFeature_Iterator_begin_def FeatureIndex_def
        ObjectIndex_def object_view_cell_def Measurement_at_object_def IteratorObject_at_def
        IteratorObject_Iterator_at_def IteratorObject_Iterator_begin_def Data_def Stride_def)

lemma AddObjectIDs_loop_frame:
  "values_' (snd (AddObjectIDs_loop objectIDs m)) = values_' m \<and>
   features_' (snd (AddObjectIDs_loop objectIDs m)) = features_' m \<and>
   featureIndices_' (snd (AddObjectIDs_loop objectIDs m)) = featureIndices_' m \<and>
   data_' (snd (AddObjectIDs_loop objectIDs m)) = data_' m"
proof (induction objectIDs arbitrary: m)
  case Nil
  then show ?case by simp
next
  case (Cons objectID rest)
  show ?case
  proof (cases "ObjectExists objectID m")
    case True
    then show ?thesis by simp
  next
    case False
    with Cons.IH [of "m \<lparr> objects_' := objects_' m @ [objectID],
                 objectIndices_' := emplace (objectIndices_' m) objectID (length (objects_' m)) \<rparr>"]
    show ?thesis by (simp add: Let_def)
  qed
qed

text \<open>A table with one feature of \<open>n\<close> values and the objects 1, ..., \<open>k\<close>.\<close>

lemma wide_table_unforged:
  fixes v :: "'u ValueInformation" and n k :: nat
  assumes n: "0 < n"
  defines "t \<equiv> run [CallAddFeature ''A'' (replicate n v), CallAddObjectIDs [1..<Suc k]]
                  (Measurement_init :: ('u, 'v::zero) Measurement)"
  shows "\<not> IsForged t" and "NumberOfValues t = n" and "NumberOfObjects t = k"
    and "values_' t = replicate n v" and "objects_' t = [1..<Suc k]"
    and "features_' t = [\<lparr> fname = ''A'', startColumn = 0, numberValues = n \<rparr>]"
    and "featureIndices_' t = [''A'' \<mapsto> 0]"
    and "table_inv t"
proof -
  let ?e = "Measurement_init :: ('u, 'v) Measurement"
  let ?m1 = "snd (AddFeature ''A'' (replicate n v) ?e)"
  have m1: "?m1 = \<lparr> objects_' = [], objectIndices_' = Map.empty,
       features_' = [\<lparr> fname = ''A'', startColumn = 0, numberValues = n \<rparr>],
       values_' = replicate n v, featureIndices_' = [''A'' \<mapsto> 0], data_' = [] \<rparr>"
    using n
    by (simp add: Measurement_init_def AddFeature_def AddFeature_'_def IsForged_def
          FeatureExists_def emplace_def Let_def)
  have nf: "\<not> IsForged ?m1" unfolding m1 by (simp add: IsForged_def)
  have "\<forall>x \<in> set [1..<Suc k]. \<not> ObjectExists x ?m1"
    unfolding m1 by (simp add: ObjectExists_def)
  then have ok: "fst (AddObjectIDs_loop [1..<Suc k] ?m1) = Inr ()"
    by (simp add: AddObjectIDs_loop_success_iff)
  have t: "t = snd (AddObjectIDs_loop [1..<Suc k] ?m1)"
    using nf by (simp add: t_def AddObjectIDs_def)
  from AddObjectIDs_loop_frame [of "[1..<Suc k]" ?m1]
  have fr: "values_' t = values_' ?m1" "features_' t = features_' ?m1"
    "featureIndices_' t = featureIndices_' ?m1" "data_' t = data_' ?m1"
    unfolding t by simp_all
  from AddObjectIDs_loop_objects [OF ok] have ob: "objects_' t = objects_' ?m1 @ [1..<Suc k]"
    unfolding t .
  show "\<not> IsForged t" using fr(4) unfolding m1 by (simp add: IsForged_def)
  show "NumberOfValues t = n" using fr(1) unfolding m1 by (simp add: NumberOfValues_def)
  show "NumberOfObjects t = k" using ob unfolding m1 by (simp add: NumberOfObjects_def)
  show "values_' t = replicate n v" using fr(1) unfolding m1 by simp
  show "objects_' t = [1..<Suc k]" using ob unfolding m1 by simp
  show "features_' t = [\<lparr> fname = ''A'', startColumn = 0, numberValues = n \<rparr>]"
    using fr(2) unfolding m1 by simp
  show "featureIndices_' t = [''A'' \<mapsto> 0]" using fr(3) unfolding m1 by simp
  show "table_inv t" unfolding t_def by (rule table_inv_reachable)
qed


lemma wide_table_forged:
  fixes v :: "'u ValueInformation" and n k :: nat
  assumes n: "0 < n" and nz: "uint_mul n k \<noteq> 0"
  defines "t \<equiv> run [CallAddFeature ''A'' (replicate n v), CallAddObjectIDs [1..<Suc k], CallForge]
                  (Measurement_init :: ('u, 'v::zero) Measurement)"
  shows "IsForged t" and "length (data_' t) = uint_mul n k"
    and "ValueIndex ''A'' t = Inr 0" and "NumberOfValues_of ''A'' t = Inr n"
    and "Stride t = Inr n"
    and "NumberOfValues t = n" and "NumberOfObjects t = k"
    and "\<And>j. j < k \<Longrightarrow> ObjectIndex (Suc j) t = Inr j"
    and "\<And>j i. j < k \<Longrightarrow> feature_view_cell t ''A'' (Suc j) i = Inr (uint_mul j n + i)"
    and "\<And>j i. j < k \<Longrightarrow> object_view_cell t (Suc j) ''A'' i = Inr (uint_mul j n + i)"
proof -
  let ?u = "run [CallAddFeature ''A'' (replicate n v), CallAddObjectIDs [1..<Suc k]]
                  (Measurement_init :: ('u, 'v) Measurement)"
  note w = wide_table_unforged [OF n, of v k, where 'v = 'v]
  have tu: "t = snd (Forge ?u)" by (simp add: t_def)
  have "uint_mul (length (values_' ?u)) (length (objects_' ?u)) = uint_mul n k"
    using w(2,3) by (simp only: NumberOfValues_def NumberOfObjects_def)
  with w(1) nz have t: "t = ?u \<lparr> data_' := replicate (uint_mul n k) 0 \<rparr>"
    unfolding tu using w(1)
    by (simp add: Forge_def Let_def resize_def IsForged_def del: run.simps)
  show f: "IsForged t" using nz unfolding t by (simp add: IsForged_def del: run.simps)
  show "length (data_' t) = uint_mul n k" unfolding t by (simp del: run.simps)
  have fi: "featureIndices_' t ''A'' = Some 0"
    unfolding t using w(7) by (simp del: run.simps)
  have fs: "features_' t = [\<lparr> fname = ''A'', startColumn = 0, numberValues = n \<rparr>]"
    unfolding t using w(6) by (simp del: run.simps)
  have vs: "length (values_' t) = n"
    unfolding t using w(4) by (simp del: run.simps)
  show "ValueIndex ''A'' t = Inr 0"
    using fi fs by (simp add: ValueIndex_def FeatureIndex_def)
  show "NumberOfValues_of ''A'' t = Inr n"
    using fi fs by (simp add: NumberOfValues_of_def FeatureIndex_def)
  show "Stride t = Inr n" using vs by (simp add: Stride_def)
  show "NumberOfValues t = n" using vs by (simp add: NumberOfValues_def)
  show "NumberOfObjects t = k"
    unfolding t using w(5) by (simp add: NumberOfObjects_def del: run.simps)
  have oi: "objectIndices_' t (Suc j) = Some j" if "j < k" for j
  proof -
    have "j < length [1..<Suc k]" "[1..<Suc k] ! j = Suc j"
      using that by (simp_all del: upt_Suc)
    then have "j < length (objects_' ?u) \<and> objects_' ?u ! j = Suc j"
      by (simp only: w(5) simp_thms)
    then have "objectIndices_' ?u (Suc j) = Some j"
      by (simp only: table_inv_objectIndices [OF w(8)])
    then show ?thesis unfolding t by (simp del: run.simps)
  qed
  show "ObjectIndex (Suc j) t = Inr j" if "j < k" for j
    using oi [OF that] by (simp add: ObjectIndex_def)
  show "feature_view_cell t ''A'' (Suc j) i = Inr (uint_mul j n + i)" if "j < k" for j i
    using view_routes(1) [OF f oi [OF that] fi, of i] fs vs by simp
  show "object_view_cell t (Suc j) ''A'' i = Inr (uint_mul j n + i)" if "j < k" for j i
    using view_routes(2) [OF f oi [OF that] fi, of i] fs vs by simp
qed

lemma deref_outside: "length (data_' m) \<le> p \<Longrightarrow> deref m p = None"
  by (simp add: deref_def)

subsection \<open>A small forged table\<close>

text \<open>Two objects and the one-valued feature \<open>Size\<close>, forged.\<close>

lemma sample_table:
  "run [CallAddObjectIDs [1, 2],
        CallAddFeature ''Size'' [\<lparr> vname = ''Size'', units = () \<rparr>],
        CallForge] (Measurement_init :: (unit, int) Measurement) =
     \<lparr> objects_' = [1, 2], objectIndices_' = [1 \<mapsto> 0, 2 \<mapsto> 1],
       features_' = [\<lparr> fname = ''Size'', startColumn = 0, numberValues = 1 \<rparr>],
       values_' = [\<lparr> vname = ''Size'', units = () \<rparr>],
       featureIndices_' = [''Size'' \<mapsto> 0], data_' = [0, 0] \<rparr>"
  by (simp add: Measurement_init_def AddObjectIDs_def AddFeature_def AddFeature_'_def Forge_def
        IsForged_def ObjectExists_def FeatureExists_def emplace_def uint_mul_def resize_def Let_def)


text \<open>The same table before it is forged.\<close>

lemma sample_unforged:
  "run [CallAddObjectIDs [1, 2],
        CallAddFeature ''Size'' [\<lparr> vname = ''Size'', units = () \<rparr>]]
       (Measurement_init :: (unit, int) Measurement) =
     \<lparr> objects_' = [1, 2], objectIndices_' = [1 \<mapsto> 0, 2 \<mapsto> 1],
       features_' = [\<lparr> fname = ''Size'', startColumn = 0, numberValues = 1 \<rparr>],
       values_' = [\<lparr> vname = ''Size'', units = () \<rparr>],
       featureIndices_' = [''Size'' \<mapsto> 0], data_' = [] \<rparr>"
  by (simp add: Measurement_init_def AddObjectIDs_def AddFeature_def AddFeature_'_def
        IsForged_def ObjectExists_def FeatureExists_def emplace_def Let_def)

text \<open>A forged table of two objects with a one-valued and a two-valued feature.\<close>

lemma sample_three_columns:
  "run [CallAddFeature ''Size'' [\<lparr> vname = ''Size'', units = () \<rparr>],
        CallAddObjectIDs [5, 7],
        CallEnsureFeature ''Center'' [\<lparr> vname = ''x'', units = () \<rparr>, \<lparr> vname = ''y'', units = () \<rparr>],
        CallForge] (Measurement_init :: (unit, int) Measurement) =
     \<lparr> objects_' = [5, 7], objectIndices_' = [5 \<mapsto> 0, 7 \<mapsto> 1],
       features_' = [\<lparr> fname = ''Size'', startColumn = 0, numberValues = 1 \<rparr>,
                     \<lparr> fname = ''Center'', startColumn = 1, numberValues = 2 \<rparr>],
       values_' = [\<lparr> vname = ''Size'', units = () \<rparr>, \<lparr> vname = ''x'', units = () \<rparr>,
                   \<lparr> vname = ''y'', units = () \<rparr>],
       featureIndices_' = [''Size'' \<mapsto> 0, ''Center'' \<mapsto> 1],
       data_' = [0, 0, 0, 0, 0, 0] \<rparr>"
  by (simp add: Measurement_init_def AddObjectIDs_def AddFeature_def EnsureFeature_def
        AddFeature_'_def Forge_def IsForged_def ObjectExists_def FeatureExists_def emplace_def
        uint_mul_def resize_def Let_def)
     (simp add: numeral_eq_Suc)

text \<open>The same table after the value 42 has been written to its last cell.\<close>

lemma sample_written:
  "run [CallAddFeature ''Size'' [\<lparr> vname = ''Size'', units = () \<rparr>],
        CallAddObjectIDs [5, 7],
        CallEnsureFeature ''Center'' [\<lparr> vname = ''x'', units = () \<rparr>, \<lparr> vname = ''y'', units = () \<rparr>],
        CallForge,
        CallWrite 5 42] (Measurement_init :: (unit, int) Measurement) =
     \<lparr> objects_' = [5, 7], objectIndices_' = [5 \<mapsto> 0, 7 \<mapsto> 1],
       features_' = [\<lparr> fname = ''Size'', startColumn = 0, numberValues = 1 \<rparr>,
                     \<lparr> fname = ''Center'', startColumn = 1, numberValues = 2 \<rparr>],
       values_' = [\<lparr> vname = ''Size'', units = () \<rparr>, \<lparr> vname = ''x'', units = () \<rparr>,
                   \<lparr> vname = ''y'', units = () \<rparr>],
       featureIndices_' = [''Size'' \<mapsto> 0, ''Center'' \<mapsto> 1],
       data_' = [0, 0, 0, 0, 0, 42] \<rparr>"
proof -
  have "run [CallAddFeature ''Size'' [\<lparr> vname = ''Size'', units = () \<rparr>],
        CallAddObjectIDs [5, 7],
        CallEnsureFeature ''Center'' [\<lparr> vname = ''x'', units = () \<rparr>, \<lparr> vname = ''y'', units = () \<rparr>],
        CallForge,
        CallWrite 5 42] (Measurement_init :: (unit, int) Measurement) =
      snd (perform (CallWrite 5 42)
        (run [CallAddFeature ''Size'' [\<lparr> vname = ''Size'', units = () \<rparr>],
        CallAddObjectIDs [5, 7],
        CallEnsureFeature ''Center'' [\<lparr> vname = ''x'', units = () \<rparr>, \<lparr> vname = ''y'', units = () \<rparr>],
        CallForge] (Measurement_init :: (unit, int) Measurement)))"
    by simp
  also have "\<dots> = \<lparr> objects_' = [5, 7], objectIndices_' = [5 \<mapsto> 0, 7 \<mapsto> 1],
       features_' = [\<lparr> fname = ''Size'', startColumn = 0, numberValues = 1 \<rparr>,
                     \<lparr> fname = ''Center'', startColumn = 1, numberValues = 2 \<rparr>],
       values_' = [\<lparr> vname = ''Size'', units = () \<rparr>, \<lparr> vname = ''x'', units = () \<rparr>,
                   \<lparr> vname = ''y'', units = () \<rparr>],
       featureIndices_' = [''Size'' \<mapsto> 0, ''Center'' \<mapsto> 1],
       data_' = [0, 0, 0, 0, 0, 42] \<rparr>"
    unfolding sample_three_columns by (simp add: numeral_eq_Suc)
  finally show ?thesis .
qed

subsection \<open>The two views address the same cell\<close>

text \<open>
  Claim C1 says that on every forged table both views reach the element at
  \<open>row * Stride() + startColumn + k\<close>. The product \<open>index_ * Stride()\<close> is computed in
  \<open>dip::uint\<close>, and so is the size of the buffer in \<open>Forge\<close>. On the forged table with one
  feature of \<open>2^32\<close> values and the \<open>2^32 + 1\<close> objects 1, ..., \<open>2^32 + 1\<close> the buffer has
  \<open>2^32\<close> elements; for the object 2, in row 1, both views give the address \<open>2^32\<close>, where the
  buffer has no element, and for the object \<open>2^32 + 1\<close>, in row \<open>2^32\<close>, both give the
  address 0, not \<open>2^32 * 2^32\<close>.
\<close>

theorem view_wrapped_offset_counterexample:
  "IsForged
      (run [CallAddFeature ''A'' (replicate (2 ^ 32) \<lparr> vname = ''a'', units = () \<rparr>),
            CallAddObjectIDs [1..<Suc (2 ^ 32 + 1)], CallForge]
         (Measurement_init :: (unit, int) Measurement)) \<and>
   Stride
      (run [CallAddFeature ''A'' (replicate (2 ^ 32) \<lparr> vname = ''a'', units = () \<rparr>),
            CallAddObjectIDs [1..<Suc (2 ^ 32 + 1)], CallForge]
         (Measurement_init :: (unit, int) Measurement)) = Inr (2 ^ 32) \<and>
   ValueIndex ''A''
      (run [CallAddFeature ''A'' (replicate (2 ^ 32) \<lparr> vname = ''a'', units = () \<rparr>),
            CallAddObjectIDs [1..<Suc (2 ^ 32 + 1)], CallForge]
         (Measurement_init :: (unit, int) Measurement)) = Inr 0 \<and>
   NumberOfValues_of ''A''
      (run [CallAddFeature ''A'' (replicate (2 ^ 32) \<lparr> vname = ''a'', units = () \<rparr>),
            CallAddObjectIDs [1..<Suc (2 ^ 32 + 1)], CallForge]
         (Measurement_init :: (unit, int) Measurement)) = Inr (2 ^ 32) \<and>
   length (data_'
      (run [CallAddFeature ''A'' (replicate (2 ^ 32) \<lparr> vname = ''a'', units = () \<rparr>),
            CallAddObjectIDs [1..<Suc (2 ^ 32 + 1)], CallForge]
         (Measurement_init :: (unit, int) Measurement))) = 2 ^ 32 \<and>
   ObjectIndex (Suc 1)
      (run [CallAddFeature ''A'' (replicate (2 ^ 32) \<lparr> vname = ''a'', units = () \<rparr>),
            CallAddObjectIDs [1..<Suc (2 ^ 32 + 1)], CallForge]
         (Measurement_init :: (unit, int) Measurement)) = Inr 1 \<and>
   feature_view_cell
      (run [CallAddFeature ''A'' (replicate (2 ^ 32) \<lparr> vname = ''a'', units = () \<rparr>),
            CallAddObjectIDs [1..<Suc (2 ^ 32 + 1)], CallForge]
         (Measurement_init :: (unit, int) Measurement)) ''A'' (Suc 1) 0 = Inr (2 ^ 32) \<and>
   object_view_cell
      (run [CallAddFeature ''A'' (replicate (2 ^ 32) \<lparr> vname = ''a'', units = () \<rparr>),
            CallAddObjectIDs [1..<Suc (2 ^ 32 + 1)], CallForge]
         (Measurement_init :: (unit, int) Measurement)) (Suc 1) ''A'' 0 = Inr (2 ^ 32) \<and>
   deref
      (run [CallAddFeature ''A'' (replicate (2 ^ 32) \<lparr> vname = ''a'', units = () \<rparr>),
            CallAddObjectIDs [1..<Suc (2 ^ 32 + 1)], CallForge]
         (Measurement_init :: (unit, int) Measurement)) (2 ^ 32) = None \<and>
   ObjectIndex (Suc (2 ^ 32))
      (run [CallAddFeature ''A'' (replicate (2 ^ 32) \<lparr> vname = ''a'', units = () \<rparr>),
            CallAddObjectIDs [1..<Suc (2 ^ 32 + 1)], CallForge]
         (Measurement_init :: (unit, int) Measurement)) = Inr (2 ^ 32) \<and>
   feature_view_cell
      (run [CallAddFeature ''A'' (replicate (2 ^ 32) \<lparr> vname = ''a'', units = () \<rparr>),
            CallAddObjectIDs [1..<Suc (2 ^ 32 + 1)], CallForge]
         (Measurement_init :: (unit, int) Measurement)) ''A'' (Suc (2 ^ 32)) 0 = Inr 0 \<and>
   object_view_cell
      (run [CallAddFeature ''A'' (replicate (2 ^ 32) \<lparr> vname = ''a'', units = () \<rparr>),
            CallAddObjectIDs [1..<Suc (2 ^ 32 + 1)], CallForge]
         (Measurement_init :: (unit, int) Measurement)) (Suc (2 ^ 32)) ''A'' 0 = Inr 0 \<and>
   (2 ^ 32 * 2 ^ 32 + 0 + 0 :: nat) \<noteq> 0"
proof -
  let ?v = "\<lparr> vname = ''a'', units = () \<rparr>"
  let ?t = "run [CallAddFeature ''A'' (replicate (2 ^ 32) ?v),
            CallAddObjectIDs [1..<Suc (2 ^ 32 + 1)], CallForge]
         (Measurement_init :: (unit, int) Measurement)"
  have p: "(0::nat) < 2 ^ 32" by simp
  have nz: "uint_mul (2 ^ 32) (2 ^ 32 + 1) \<noteq> 0" by (simp add: uint_mul_def)
  have e1: "uint_mul 1 (2 ^ 32) + 0 = 2 ^ 32" by (simp add: uint_mul_def)
  have e2: "uint_mul (2 ^ 32) (2 ^ 32 + 1) = 2 ^ 32" by (simp add: uint_mul_def)
  have e3: "uint_mul (2 ^ 32) (2 ^ 32) + 0 = 0" by (simp add: uint_mul_def)
  have l1: "(1::nat) < 2 ^ 32 + 1" by simp
  have l2: "(2 ^ 32 :: nat) < 2 ^ 32 + 1" by simp
  note w = wide_table_forged [OF p nz, where v = ?v and 'v = int]
  have len: "length (data_' ?t) = 2 ^ 32"
    using w(2) unfolding e2 .
  have "length (data_' ?t) \<le> 2 ^ 32"
    unfolding len by (rule order_refl)
  then have d: "deref ?t (2 ^ 32) = None"
    by (rule deref_outside)
  have f1: "feature_view_cell ?t ''A'' (Suc 1) 0 = Inr (2 ^ 32)"
    using w(9) [OF l1, of 0] unfolding e1 .
  have g1: "object_view_cell ?t (Suc 1) ''A'' 0 = Inr (2 ^ 32)"
    using w(10) [OF l1, of 0] unfolding e1 .
  have f2: "feature_view_cell ?t ''A'' (Suc (2 ^ 32)) 0 = Inr 0"
    using w(9) [OF l2, of 0] unfolding e3 .
  have g2: "object_view_cell ?t (Suc (2 ^ 32)) ''A'' 0 = Inr 0"
    using w(10) [OF l2, of 0] unfolding e3 .
  have n: "(2 ^ 32 * 2 ^ 32 + 0 + 0 :: nat) \<noteq> 0" by simp
  show ?thesis
    by (intro conjI w(1) w(5) w(3) w(4) len w(8) [OF l1] f1 g1 d w(8) [OF l2] f2 g2 n)
qed

text \<open>
  Claim C1 as amended. On a forged table built by a sequence of calls (assignments to cells
  included), for an object identifier and a feature name that are present,
  \<open>table[ name ][ id ][ k ]\<close> and \<open>table[ id ][ name ][ k ]\<close> are the same address:
  \<open>row * Stride()\<close> taken in \<open>dip::uint\<close>, plus \<open>startColumn + k\<close>, where \<open>row\<close> is
  \<open>ObjectIndex( id )\<close> and \<open>startColumn\<close> is \<open>ValueIndex( name )\<close>. When the table has fewer
  than \<open>2^64\<close> cells and \<open>k\<close> is below the feature's number of values, that address is
  \<open>row * Stride() + startColumn + k\<close> and lies inside the buffer, so both expressions read
  the value stored there.
\<close>

theorem view_duality:
  "(IsForged (run cs Measurement_init :: ('u, 'v::zero) Measurement) \<and>
   ObjectIndex objectID (run cs Measurement_init :: ('u, 'v) Measurement) = Inr row \<and>
   ValueIndex name (run cs Measurement_init :: ('u, 'v) Measurement) = Inr column \<and>
   NumberOfValues_of name (run cs Measurement_init :: ('u, 'v) Measurement) = Inr nv \<and>
   k < nv \<and>
   Stride (run cs Measurement_init :: ('u, 'v) Measurement) = Inr stride \<and>
   NumberOfValues (run cs Measurement_init :: ('u, 'v) Measurement) *
     NumberOfObjects (run cs Measurement_init :: ('u, 'v) Measurement) < 2 ^ 64 \<longrightarrow>
   feature_view_cell (run cs Measurement_init :: ('u, 'v) Measurement) name objectID k =
     Inr (row * stride + column + k) \<and>
   object_view_cell (run cs Measurement_init :: ('u, 'v) Measurement) objectID name k =
     Inr (row * stride + column + k) \<and>
   row * stride + column + k < length (data_' (run cs Measurement_init :: ('u, 'v) Measurement)) \<and>
   deref (run cs Measurement_init :: ('u, 'v) Measurement) (row * stride + column + k) =
     Some (data_' (run cs Measurement_init :: ('u, 'v) Measurement) ! (row * stride + column + k))) \<and>
   (IsForged (run cs Measurement_init :: ('u, 'v) Measurement) \<and>
    ObjectIndex objectID (run cs Measurement_init :: ('u, 'v) Measurement) = Inr row \<and>
    ValueIndex name (run cs Measurement_init :: ('u, 'v) Measurement) = Inr column \<and>
    Stride (run cs Measurement_init :: ('u, 'v) Measurement) = Inr stride \<longrightarrow>
    feature_view_cell (run cs Measurement_init :: ('u, 'v) Measurement) name objectID k =
      Inr (uint_mul row stride + column + k) \<and>
    object_view_cell (run cs Measurement_init :: ('u, 'v) Measurement) objectID name k =
      Inr (uint_mul row stride + column + k))"
proof (intro conjI)
  show "IsForged (run cs Measurement_init :: ('u, 'v::zero) Measurement) \<and>
     ObjectIndex objectID (run cs Measurement_init :: ('u, 'v) Measurement) = Inr row \<and>
     ValueIndex name (run cs Measurement_init :: ('u, 'v) Measurement) = Inr column \<and>
     NumberOfValues_of name (run cs Measurement_init :: ('u, 'v) Measurement) = Inr nv \<and>
     k < nv \<and>
     Stride (run cs Measurement_init :: ('u, 'v) Measurement) = Inr stride \<and>
     NumberOfValues (run cs Measurement_init :: ('u, 'v) Measurement) *
       NumberOfObjects (run cs Measurement_init :: ('u, 'v) Measurement) < 2 ^ 64 \<longrightarrow>
     feature_view_cell (run cs Measurement_init :: ('u, 'v) Measurement) name objectID k =
       Inr (row * stride + column + k) \<and>
     object_view_cell (run cs Measurement_init :: ('u, 'v) Measurement) objectID name k =
       Inr (row * stride + column + k) \<and>
     row * stride + column + k < length (data_' (run cs Measurement_init :: ('u, 'v) Measurement)) \<and>
     deref (run cs Measurement_init :: ('u, 'v) Measurement) (row * stride + column + k) =
       Some (data_' (run cs Measurement_init :: ('u, 'v) Measurement) ! (row * stride + column + k))"
  proof (intro impI)
    let ?m = "run cs Measurement_init :: ('u, 'v) Measurement"
    assume "IsForged ?m \<and> ObjectIndex objectID ?m = Inr row \<and> ValueIndex name ?m = Inr column \<and>
       NumberOfValues_of name ?m = Inr nv \<and> k < nv \<and> Stride ?m = Inr stride \<and>
       NumberOfValues ?m * NumberOfObjects ?m < 2 ^ 64"
    then have forged: "IsForged ?m"
      and oi: "ObjectIndex objectID ?m = Inr row"
      and vi: "ValueIndex name ?m = Inr column"
      and nv: "NumberOfValues_of name ?m = Inr nv"
      and k: "k < nv"
      and st: "Stride ?m = Inr stride"
      and small: "NumberOfValues ?m * NumberOfObjects ?m < 2 ^ 64"
      by simp_all
    have inv: "table_inv ?m" by (rule table_inv_reachable)
    from st have stride: "stride = length (values_' ?m)"
      by (simp add: Stride_def)
    from oi have oi': "objectIndices_' ?m objectID = Some row"
      by (simp add: ObjectIndex_def split: option.splits)
    then have row: "row < length (objects_' ?m)"
      using table_inv_objectIndices [OF inv] by blast
    from vi obtain fi where fi: "featureIndices_' ?m name = Some fi"
      and column: "column = startColumn (features_' ?m ! fi)"
      by (auto simp: ValueIndex_def FeatureIndex_def split: option.splits)
    from nv fi have nv': "nv = numberValues (features_' ?m ! fi)"
      by (simp add: NumberOfValues_of_def FeatureIndex_def)
    from fi have fi_lt: "fi < length (features_' ?m)"
      using table_inv_featureIndices [OF inv] by blast
    from inv have "tiles_from 0 (features_' ?m)"
      and "sum_list (map numberValues (features_' ?m)) = length (values_' ?m)"
      by (simp_all add: table_inv_def)
    with tiles_from_group_end [of 0 "features_' ?m" fi] fi_lt
    have fits: "column + nv \<le> stride"
      by (simp add: column nv' stride)
    have cells: "stride * length (objects_' ?m) < 2 ^ 64"
      using small by (simp add: stride NumberOfValues_def NumberOfObjects_def)
    from inv forged have "length (data_' ?m) = uint_mul (length (values_' ?m)) (length (objects_' ?m))"
      by (simp add: table_inv_def IsForged_def)
    with cells have len: "length (data_' ?m) = stride * length (objects_' ?m)"
      by (simp add: uint_mul_def stride)
    have inside: "row * stride + column + k < length (data_' ?m)"
      unfolding len by (rule cell_offset_in_buffer [OF row fits k])
    have "row * stride \<le> row * stride + column + k" by simp
    with inside len cells have "row * stride < 2 ^ 64" by linarith
    then have mul: "uint_mul row stride = row * stride"
      by (simp add: uint_mul_def)
    have f: "feature_view_cell ?m name objectID k = Inr (row * stride + column + k)"
      using fi oi' st mul
      by (simp add: feature_view_cell_def Measurement_at_name_def IteratorFeature_at_def
            IteratorFeature_Iterator_at_def IteratorFeature_Iterator_begin_def FeatureIndex_def
            ObjectIndex_def column)
    have g: "object_view_cell ?m objectID name k = Inr (row * stride + column + k)"
      using fi oi' st mul forged
      by (simp add: object_view_cell_def Measurement_at_object_def IteratorObject_at_def
            IteratorObject_Iterator_at_def IteratorObject_Iterator_begin_def FeatureIndex_def
            ObjectIndex_def Data_def column)
    from inside have d: "deref ?m (row * stride + column + k) =
        Some (data_' ?m ! (row * stride + column + k))"
      by (simp add: deref_def)
    from f g inside d
    show "feature_view_cell ?m name objectID k = Inr (row * stride + column + k) \<and>
     object_view_cell ?m objectID name k = Inr (row * stride + column + k) \<and>
     row * stride + column + k < length (data_' ?m) \<and>
     deref ?m (row * stride + column + k) = Some (data_' ?m ! (row * stride + column + k))"
      by blast
  qed
next
  let ?m = "run cs Measurement_init :: ('u, 'v) Measurement"
  show "IsForged ?m \<and> ObjectIndex objectID ?m = Inr row \<and> ValueIndex name ?m = Inr column \<and>
    Stride ?m = Inr stride \<longrightarrow>
    feature_view_cell ?m name objectID k = Inr (uint_mul row stride + column + k) \<and>
    object_view_cell ?m objectID name k = Inr (uint_mul row stride + column + k)"
  proof (intro impI)
    assume "IsForged ?m \<and> ObjectIndex objectID ?m = Inr row \<and> ValueIndex name ?m = Inr column \<and>
      Stride ?m = Inr stride"
    then have forged: "IsForged ?m"
      and oi: "ObjectIndex objectID ?m = Inr row"
      and vi: "ValueIndex name ?m = Inr column"
      and st: "Stride ?m = Inr stride"
      by simp_all
    from st have stride: "stride = length (values_' ?m)"
      by (simp add: Stride_def)
    from oi have oi': "objectIndices_' ?m objectID = Some row"
      by (simp add: ObjectIndex_def split: option.splits)
    from vi obtain fi where fi: "featureIndices_' ?m name = Some fi"
      and column: "column = startColumn (features_' ?m ! fi)"
      by (auto simp: ValueIndex_def FeatureIndex_def split: option.splits)
    from view_routes [OF forged oi' fi, of k]
    show "feature_view_cell ?m name objectID k = Inr (uint_mul row stride + column + k) \<and>
      object_view_cell ?m objectID name k = Inr (uint_mul row stride + column + k)"
      unfolding stride column by blast
  qed
qed

theorem view_duality_witness:
  "feature_view_cell
     (run [CallAddFeature ''Size'' [\<lparr> vname = ''Size'', units = () \<rparr>],
        CallAddObjectIDs [5, 7],
        CallEnsureFeature ''Center'' [\<lparr> vname = ''x'', units = () \<rparr>, \<lparr> vname = ''y'', units = () \<rparr>],
        CallForge,
        CallWrite 5 42] (Measurement_init :: (unit, int) Measurement)) ''Center'' 7 1 = Inr 5 \<and>
   object_view_cell
     (run [CallAddFeature ''Size'' [\<lparr> vname = ''Size'', units = () \<rparr>],
        CallAddObjectIDs [5, 7],
        CallEnsureFeature ''Center'' [\<lparr> vname = ''x'', units = () \<rparr>, \<lparr> vname = ''y'', units = () \<rparr>],
        CallForge,
        CallWrite 5 42] (Measurement_init :: (unit, int) Measurement)) 7 ''Center'' 1 = Inr 5 \<and>
   deref
     (run [CallAddFeature ''Size'' [\<lparr> vname = ''Size'', units = () \<rparr>],
        CallAddObjectIDs [5, 7],
        CallEnsureFeature ''Center'' [\<lparr> vname = ''x'', units = () \<rparr>, \<lparr> vname = ''y'', units = () \<rparr>],
        CallForge,
        CallWrite 5 42] (Measurement_init :: (unit, int) Measurement)) 5 = Some 42"
proof -
  let ?cs = "[CallAddFeature ''Size'' [\<lparr> vname = ''Size'', units = () \<rparr>],
        CallAddObjectIDs [5, 7],
        CallEnsureFeature ''Center'' [\<lparr> vname = ''x'', units = () \<rparr>, \<lparr> vname = ''y'', units = () \<rparr>],
        CallForge,
        CallWrite 5 42] :: (unit, int) call list"
  let ?m = "run ?cs (Measurement_init :: (unit, int) Measurement)"
  have h: "IsForged ?m" "ObjectIndex 7 ?m = Inr 1" "ValueIndex ''Center'' ?m = Inr 1"
    "NumberOfValues_of ''Center'' ?m = Inr 2" "(1::nat) < 2" "Stride ?m = Inr 3"
    "NumberOfValues ?m * NumberOfObjects ?m < 2 ^ 64"
    unfolding sample_written
    by (simp_all add: IsForged_def ObjectIndex_def ValueIndex_def NumberOfValues_of_def
          FeatureIndex_def Stride_def NumberOfValues_def NumberOfObjects_def)
  have "feature_view_cell ?m ''Center'' 7 1 = Inr (1 * 3 + 1 + 1) \<and>
     object_view_cell ?m 7 ''Center'' 1 = Inr (1 * 3 + 1 + 1) \<and>
     1 * 3 + 1 + 1 < length (data_' ?m) \<and>
     deref ?m (1 * 3 + 1 + 1) = Some (data_' ?m ! (1 * 3 + 1 + 1))"
    using view_duality [of ?cs 7 1 "''Center''" 1 2 1 3, THEN conjunct1] h by blast
  then have c: "feature_view_cell ?m ''Center'' 7 1 = Inr 5"
    "object_view_cell ?m 7 ''Center'' 1 = Inr 5"
    "deref ?m 5 = Some (data_' ?m ! 5)"
    by (simp_all del: run.simps)
  have "data_' ?m ! 5 = 42"
    unfolding sample_written by simp
  with c(3) have d: "deref ?m 5 = Some 42" by (simp del: run.simps)
  show ?thesis
    by (intro conjI c(1,2) d)
qed

subsection \<open>Adding a feature\<close>

text \<open>
  Claim C2. \<open>AddFeature( name, values )\<close> throws "Measurement object is forged." on a forged
  table. On a table that is not forged it throws one of the three argument errors ("No feature
  name given.", "Feature already present: ...", "A feature needs at least one value.") when the
  name is empty, the name is already present, or \<open>values\<close> is empty, tested in this order,
  and leaves the table as it was. Otherwise it returns normally, \<open>values\<close> is appended to the
  value-information records, and a feature-info entry is appended whose \<open>startColumn\<close> is the
  number of value columns before the call and whose \<open>numberValues\<close> is the length of
  \<open>values\<close>; the name is mapped to the index of that entry.
\<close>

theorem AddFeature_outcomes:
  "(IsForged m \<longrightarrow> AddFeature name values m = (Inl MeasurementObjectIsForged, m)) \<and>
   (\<not> IsForged m \<and> name = [] \<longrightarrow> AddFeature name values m = (Inl NoFeatureNameGiven, m)) \<and>
   (\<not> IsForged m \<and> name \<noteq> [] \<and> FeatureExists name m \<longrightarrow>
      AddFeature name values m = (Inl (FeatureAlreadyPresent name), m)) \<and>
   (\<not> IsForged m \<and> name \<noteq> [] \<and> \<not> FeatureExists name m \<and> values = [] \<longrightarrow>
      AddFeature name values m = (Inl FeatureNeedsAtLeastOneValue, m)) \<and>
   (\<not> IsForged m \<and> (name = [] \<or> values = [] \<or> FeatureExists name m) \<longrightarrow>
      AddFeature name values m = (Inl NoFeatureNameGiven, m) \<or>
      AddFeature name values m = (Inl (FeatureAlreadyPresent name), m) \<or>
      AddFeature name values m = (Inl FeatureNeedsAtLeastOneValue, m)) \<and>
   (\<not> IsForged m \<and> name \<noteq> [] \<and> values \<noteq> [] \<and> \<not> FeatureExists name m \<longrightarrow>
      fst (AddFeature name values m) = Inr () \<and>
      values_' (snd (AddFeature name values m)) = values_' m @ values \<and>
      features_' (snd (AddFeature name values m)) =
        features_' m @
          [\<lparr> fname = name, startColumn = NumberOfValues m, numberValues = length values \<rparr>] \<and>
      FeatureIndex name (snd (AddFeature name values m)) = Inr (NumberOfFeatures m) \<and>
      objects_' (snd (AddFeature name values m)) = objects_' m \<and>
      objectIndices_' (snd (AddFeature name values m)) = objectIndices_' m \<and>
      data_' (snd (AddFeature name values m)) = data_' m)"
  by (auto simp: AddFeature_def AddFeature_'_def FeatureExists_def FeatureIndex_def
        NumberOfValues_def NumberOfFeatures_def emplace_def Let_def)


theorem AddFeature_outcomes_witness:
  "AddFeature ''Mass'' [\<lparr> vname = ''Mass'', units = () \<rparr>]
      (run [CallAddObjectIDs [1, 2],
            CallAddFeature ''Size'' [\<lparr> vname = ''Size'', units = () \<rparr>],
            CallForge] (Measurement_init :: (unit, int) Measurement)) =
     (Inl MeasurementObjectIsForged,
      run [CallAddObjectIDs [1, 2],
            CallAddFeature ''Size'' [\<lparr> vname = ''Size'', units = () \<rparr>],
            CallForge] Measurement_init) \<and>
   AddFeature [] [\<lparr> vname = ''Mass'', units = () \<rparr>] (Measurement_init :: (unit, int) Measurement) =
     (Inl NoFeatureNameGiven, Measurement_init) \<and>
   AddFeature ''Mass'' [] (Measurement_init :: (unit, int) Measurement) =
     (Inl FeatureNeedsAtLeastOneValue, Measurement_init) \<and>
   fst (AddFeature ''Size'' [\<lparr> vname = ''Size2'', units = () \<rparr>]
      (run [CallAddFeature ''Size'' [\<lparr> vname = ''Size'', units = () \<rparr>]]
         (Measurement_init :: (unit, int) Measurement))) = Inl (FeatureAlreadyPresent ''Size'') \<and>
   features_' (snd (AddFeature ''Mass'' [\<lparr> vname = ''Mass'', units = () \<rparr>]
      (run [CallAddFeature ''Size'' [\<lparr> vname = ''Size'', units = () \<rparr>]]
         (Measurement_init :: (unit, int) Measurement)))) =
     [\<lparr> fname = ''Size'', startColumn = 0, numberValues = 1 \<rparr>,
      \<lparr> fname = ''Mass'', startColumn = 1, numberValues = 1 \<rparr>]"
proof -
  let ?v = "\<lparr> vname = ''Mass'', units = () \<rparr>"
  let ?forged = "run [CallAddObjectIDs [1, 2],
            CallAddFeature ''Size'' [\<lparr> vname = ''Size'', units = () \<rparr>],
            CallForge] (Measurement_init :: (unit, int) Measurement)"
  let ?one = "run [CallAddFeature ''Size'' [\<lparr> vname = ''Size'', units = () \<rparr>]]
         (Measurement_init :: (unit, int) Measurement)"
  have one: "?one = \<lparr> objects_' = [], objectIndices_' = Map.empty,
       features_' = [\<lparr> fname = ''Size'', startColumn = 0, numberValues = 1 \<rparr>],
       values_' = [\<lparr> vname = ''Size'', units = () \<rparr>],
       featureIndices_' = [''Size'' \<mapsto> 0], data_' = [] \<rparr>"
    by (simp add: Measurement_init_def AddFeature_def AddFeature_'_def
        IsForged_def FeatureExists_def emplace_def Let_def)
  have f: "IsForged ?forged"
    unfolding sample_table by (simp add: IsForged_def)
  have e: "\<not> IsForged (Measurement_init :: (unit, int) Measurement)"
    by (simp add: Measurement_init_def IsForged_def)
  have o: "\<not> IsForged ?one" "FeatureExists ''Size'' ?one" "\<not> FeatureExists ''Mass'' ?one"
    "NumberOfValues ?one = 1"
    unfolding one by (simp_all add: IsForged_def FeatureExists_def NumberOfValues_def)
  have c1: "AddFeature ''Mass'' [?v] ?forged = (Inl MeasurementObjectIsForged, ?forged)"
    using AddFeature_outcomes [of ?forged "''Mass''" "[?v]"] f by blast
  have c2: "AddFeature [] [?v] (Measurement_init :: (unit, int) Measurement) =
     (Inl NoFeatureNameGiven, Measurement_init)"
    using AddFeature_outcomes [of "Measurement_init :: (unit, int) Measurement" "[]" "[?v]"] e
    by blast
  have c3: "AddFeature ''Mass'' [] (Measurement_init :: (unit, int) Measurement) =
     (Inl FeatureNeedsAtLeastOneValue, Measurement_init)"
    using AddFeature_outcomes [of "Measurement_init :: (unit, int) Measurement" "''Mass''" "[]"] e
    by (simp add: FeatureExists_def Measurement_init_def)
  have c4: "fst (AddFeature ''Size'' [\<lparr> vname = ''Size2'', units = () \<rparr>] ?one) =
     Inl (FeatureAlreadyPresent ''Size'')"
    using AddFeature_outcomes [of ?one "''Size''" "[\<lparr> vname = ''Size2'', units = () \<rparr>]"] o
    by (simp del: run.simps)
  have c5: "features_' (snd (AddFeature ''Mass'' [?v] ?one)) =
     [\<lparr> fname = ''Size'', startColumn = 0, numberValues = 1 \<rparr>,
      \<lparr> fname = ''Mass'', startColumn = 1, numberValues = 1 \<rparr>]"
    using AddFeature_outcomes [of ?one "''Mass''" "[?v]"] o
    by (simp del: run.simps) (simp add: one del: run.simps)
  from c1 c2 c3 c4 c5 show ?thesis by blast
qed

subsection \<open>Forging\<close>




subsection \<open>Layout of the columns\<close>

text \<open>
  Claim C4. After every sequence of calls of \<open>AddFeature\<close>, \<open>EnsureFeature\<close>,
  \<open>AddObjectIDs\<close> and \<open>Forge\<close> on a new table (the calls that throw included, and
  assignments to cells as well), \<open>Stride()\<close> is the sum of \<open>numberValues\<close> over the
  recorded features, which is the number of value-information records. The column groups
  tile the row in insertion order: the first starts at column 0, each next one starts where the
  one before it ends, every group has at least one column, and so the last ends at the stride.
\<close>

theorem Stride_is_sum_of_numberValues:
  "Stride (run cs Measurement_init :: ('u, 'v::zero) Measurement) =
     Inr (sum_list (map numberValues (features_' (run cs Measurement_init :: ('u, 'v) Measurement)))) \<and>
   sum_list (map numberValues (features_' (run cs Measurement_init :: ('u, 'v) Measurement))) =
     length (values_' (run cs Measurement_init :: ('u, 'v) Measurement)) \<and>
   tiles_from 0 (features_' (run cs Measurement_init :: ('u, 'v) Measurement)) \<and>
   (\<forall>i < length (features_' (run cs Measurement_init :: ('u, 'v) Measurement)).
      startColumn (features_' (run cs Measurement_init :: ('u, 'v) Measurement) ! i) =
        sum_list (map numberValues
          (take i (features_' (run cs Measurement_init :: ('u, 'v) Measurement)))) \<and>
      0 < numberValues (features_' (run cs Measurement_init :: ('u, 'v) Measurement) ! i))"
proof -
  let ?m = "run cs Measurement_init :: ('u, 'v) Measurement"
  have inv: "table_inv ?m" by (rule table_inv_reachable)
  then have s: "sum_list (map numberValues (features_' ?m)) = length (values_' ?m)"
    and t: "tiles_from 0 (features_' ?m)"
    and p: "\<forall>f \<in> set (features_' ?m). 0 < numberValues f"
    by (simp_all add: table_inv_def)
  have "Stride ?m = Inr (sum_list (map numberValues (features_' ?m)))"
    by (simp add: Stride_def s)
  moreover have "\<forall>i < length (features_' ?m).
      startColumn (features_' ?m ! i) = sum_list (map numberValues (take i (features_' ?m))) \<and>
      0 < numberValues (features_' ?m ! i)"
    using tiles_from_nth [OF t] p by simp
  ultimately show ?thesis using s t by blast
qed

theorem Stride_is_sum_of_numberValues_witness:
  "Stride (run [CallAddFeature ''Size'' [\<lparr> vname = ''Size'', units = () \<rparr>],
        CallAddObjectIDs [5, 7],
        CallEnsureFeature ''Center'' [\<lparr> vname = ''x'', units = () \<rparr>, \<lparr> vname = ''y'', units = () \<rparr>],
        CallForge] (Measurement_init :: (unit, int) Measurement)) = Inr 3 \<and>
   (1::nat) < length (features_' (run [CallAddFeature ''Size'' [\<lparr> vname = ''Size'', units = () \<rparr>],
        CallAddObjectIDs [5, 7],
        CallEnsureFeature ''Center'' [\<lparr> vname = ''x'', units = () \<rparr>, \<lparr> vname = ''y'', units = () \<rparr>],
        CallForge] (Measurement_init :: (unit, int) Measurement))) \<and>
   startColumn (features_' (run [CallAddFeature ''Size'' [\<lparr> vname = ''Size'', units = () \<rparr>],
        CallAddObjectIDs [5, 7],
        CallEnsureFeature ''Center'' [\<lparr> vname = ''x'', units = () \<rparr>, \<lparr> vname = ''y'', units = () \<rparr>],
        CallForge] (Measurement_init :: (unit, int) Measurement)) ! 1) = 1"
proof -
  let ?cs = "[CallAddFeature ''Size'' [\<lparr> vname = ''Size'', units = () \<rparr>],
        CallAddObjectIDs [5, 7],
        CallEnsureFeature ''Center'' [\<lparr> vname = ''x'', units = () \<rparr>, \<lparr> vname = ''y'', units = () \<rparr>],
        CallForge] :: (unit, int) call list"
  let ?m = "run ?cs (Measurement_init :: (unit, int) Measurement)"
  have l: "(1::nat) < length (features_' ?m)"
    unfolding sample_three_columns by simp
  have "Stride ?m = Inr (sum_list (map numberValues (features_' ?m)))"
    using Stride_is_sum_of_numberValues [of ?cs] by blast
  then have c1: "Stride ?m = Inr 3"
    unfolding sample_three_columns by simp
  have "startColumn (features_' ?m ! 1) = sum_list (map numberValues (take 1 (features_' ?m)))"
    using Stride_is_sum_of_numberValues [of ?cs] l by blast
  then have c2: "startColumn (features_' ?m ! 1) = 1"
    unfolding sample_three_columns by simp
  from c1 l c2 show ?thesis by blast
qed

subsection \<open>Raw access\<close>

text \<open>
  Claim C5 says that \<open>Data()\<close> and \<open>Stride()\<close> both fail on a table that is not forged.
  \<open>Stride()\<close> does not: on the default-constructed table, which is not forged, it returns 0.
\<close>

theorem Stride_not_forged_counterexample:
  "\<not> IsForged (Measurement_init :: (unit, int) Measurement) \<and>
   Stride (Measurement_init :: (unit, int) Measurement) = Inr 0"
  by (simp add: IsForged_def Stride_def Measurement_init_def)

text \<open>
  Claim C5 as amended. On a table that is not forged \<open>Data()\<close> throws "Measurement object not
  forged." while \<open>Stride()\<close> returns the number of value columns; on a forged table both
  return, \<open>Data()\<close> the start of the buffer and \<open>Stride()\<close> the number of value columns.
\<close>

theorem Data_Stride_forged:
  "(\<not> IsForged m \<longrightarrow>
      Data m = Inl MeasurementObjectNotForged \<and> Stride m = Inr (NumberOfValues m)) \<and>
   (IsForged m \<longrightarrow> Data m = Inr 0 \<and> Stride m = Inr (NumberOfValues m))"
  by (simp add: Data_def Stride_def NumberOfValues_def)

theorem Data_Stride_forged_witness:
  "Data (Measurement_init :: (unit, int) Measurement) = Inl MeasurementObjectNotForged \<and>
   Stride (Measurement_init :: (unit, int) Measurement) = Inr 0 \<and>
   Data (run [CallAddObjectIDs [1, 2],
              CallAddFeature ''Size'' [\<lparr> vname = ''Size'', units = () \<rparr>],
              CallForge] (Measurement_init :: (unit, int) Measurement)) = Inr 0 \<and>
   Stride (run [CallAddObjectIDs [1, 2],
              CallAddFeature ''Size'' [\<lparr> vname = ''Size'', units = () \<rparr>],
              CallForge] (Measurement_init :: (unit, int) Measurement)) = Inr 1"
proof -
  let ?forged = "run [CallAddObjectIDs [1, 2],
              CallAddFeature ''Size'' [\<lparr> vname = ''Size'', units = () \<rparr>],
              CallForge] (Measurement_init :: (unit, int) Measurement)"
  have e: "\<not> IsForged (Measurement_init :: (unit, int) Measurement)"
    "NumberOfValues (Measurement_init :: (unit, int) Measurement) = 0"
    by (simp_all add: Measurement_init_def IsForged_def NumberOfValues_def)
  have f: "IsForged ?forged" "NumberOfValues ?forged = 1"
    unfolding sample_table by (simp_all add: IsForged_def NumberOfValues_def)
  have c1: "Data (Measurement_init :: (unit, int) Measurement) = Inl MeasurementObjectNotForged \<and>
   Stride (Measurement_init :: (unit, int) Measurement) = Inr 0"
    using Data_Stride_forged [of "Measurement_init :: (unit, int) Measurement"] e by simp
  have c2: "Data ?forged = Inr 0 \<and> Stride ?forged = Inr 1"
    using Data_Stride_forged [of ?forged] f by (simp del: run.simps)
  from c1 c2 show ?thesis by blast
qed

subsection \<open>Registering features\<close>

lemma Exists_Register:
  "Exists n (Register feature tool) \<longleftrightarrow> n = iname (information feature) \<or> Exists n tool"
  by (auto simp: Exists_def Register_def emplace_def Let_def split: option.splits)

lemma Register_all_features:
  "\<forall>n. Exists n tool \<longleftrightarrow> n \<in> set seen \<Longrightarrow>
     tool_features_' (Register_all fs tool) = tool_features_' tool @ first_of_each_name seen fs"
proof (induction fs arbitrary: tool seen)
  case Nil
  then show ?case by simp
next
  case (Cons f fs)
  show ?case
  proof (cases "iname (information f) \<in> set seen")
    case True
    with Cons.prems have "Register f tool = tool"
      by (simp add: Register_def)
    with Cons.IH [OF Cons.prems] True show ?thesis by simp
  next
    case False
    with Cons.prems have fs': "tool_features_' (Register f tool) = tool_features_' tool @ [f]"
      by (simp add: Register_def Let_def)
    have "\<forall>n. Exists n (Register f tool) \<longleftrightarrow> n \<in> set (iname (information f) # seen)"
      using Cons.prems by (simp add: Exists_Register)
    from Cons.IH [OF this] fs' False show ?thesis by simp
  qed
qed

lemma first_of_each_name_names:
  "distinct (map (\<lambda>f. iname (information f)) (first_of_each_name seen fs)) \<and>
   set (map (\<lambda>f. iname (information f)) (first_of_each_name seen fs)) =
     set (map (\<lambda>f. iname (information f)) fs) - set seen"
proof (induction fs arbitrary: seen)
  case Nil
  then show ?case by simp
next
  case (Cons f fs)
  show ?case
  proof (cases "iname (information f) \<in> set seen")
    case True
    with Cons.IH [of seen] show ?thesis by auto
  next
    case False
    with Cons.IH [of "iname (information f) # seen"] show ?thesis by auto
  qed
qed

lemma Exists_Register_all:
  "Exists n (Register_all fs tool) \<longleftrightarrow>
     n \<in> set (map (\<lambda>f. iname (information f)) fs) \<or> Exists n tool"
  by (induction fs arbitrary: tool) (auto simp: Exists_Register)

text \<open>
  Claim C6. Registering a feature whose name the registry already knows returns the registry
  as it was: the argument is dropped. After any sequence of registrations into the empty
  registry, the registry holds, in the order of registration, the first instance registered
  under each name, a name is known exactly when one of the features had it, and \<open>Features()\<close>
  returns the information records of these instances, in that order, one for each name.
\<close>

theorem Register_keeps_first:
  "(Exists (iname (information feature)) tool \<longrightarrow> Register feature tool = tool) \<and>
   tool_features_' (Register_all fs MeasurementTool_empty) =
     first_of_each_name [] (fs :: 'f Base list) \<and>
   MeasurementTool_Features (Register_all fs MeasurementTool_empty) =
     map information (first_of_each_name [] fs) \<and>
   distinct (map iname (MeasurementTool_Features (Register_all fs MeasurementTool_empty))) \<and>
   set (map iname (MeasurementTool_Features (Register_all fs MeasurementTool_empty))) =
     set (map (\<lambda>f. iname (information f)) fs) \<and>
   Exists n (Register_all fs MeasurementTool_empty) =
     (n \<in> set (map (\<lambda>f. iname (information f)) fs))"
proof -
  have e: "\<forall>n. Exists n (MeasurementTool_empty :: 'f MeasurementTool) \<longleftrightarrow> n \<in> set []"
    by (simp add: Exists_def MeasurementTool_empty_def)
  have f: "tool_features_' (Register_all fs MeasurementTool_empty) = first_of_each_name [] fs"
    using Register_all_features [OF e, of fs] by (simp add: MeasurementTool_empty_def)
  have n: "map iname (MeasurementTool_Features (Register_all fs MeasurementTool_empty)) =
      map (\<lambda>f. iname (information f)) (first_of_each_name [] fs)"
    by (simp add: MeasurementTool_Features_def f)
  have r: "Exists (iname (information feature)) tool \<longrightarrow> Register feature tool = tool"
    by (simp add: Register_def)
  have d: "distinct (map iname (MeasurementTool_Features (Register_all fs MeasurementTool_empty)))"
    unfolding n using first_of_each_name_names [of "[]" fs] by blast
  have s: "set (map iname (MeasurementTool_Features (Register_all fs MeasurementTool_empty))) =
     set (map (\<lambda>f. iname (information f)) fs)"
    unfolding n using first_of_each_name_names [of "[]" fs] by simp
  have m: "MeasurementTool_Features (Register_all fs MeasurementTool_empty) =
     map information (first_of_each_name [] fs)"
    by (simp add: MeasurementTool_Features_def f)
  have x: "Exists n (Register_all fs MeasurementTool_empty) =
     (n \<in> set (map (\<lambda>f. iname (information f)) fs))"
    using e by (simp add: Exists_Register_all)
  show ?thesis
    by (intro conjI r f m d s x)
qed

theorem Register_keeps_first_witness:
  "Register \<lparr> information = \<lparr> iname = ''Size'', description = ''second'', needsGreyValue = True \<rparr>,
              type = IMAGE_BASED, derived = (2::nat) \<rparr>
     (Register_all
        [\<lparr> information = \<lparr> iname = ''Size'', description = ''first'', needsGreyValue = False \<rparr>,
           type = LINE_BASED, derived = (1::nat) \<rparr>] MeasurementTool_empty) =
   Register_all
        [\<lparr> information = \<lparr> iname = ''Size'', description = ''first'', needsGreyValue = False \<rparr>,
           type = LINE_BASED, derived = (1::nat) \<rparr>] MeasurementTool_empty \<and>
   MeasurementTool_Features
     (Register_all
        [\<lparr> information = \<lparr> iname = ''Size'', description = ''first'', needsGreyValue = False \<rparr>,
           type = LINE_BASED, derived = (1::nat) \<rparr>,
         \<lparr> information = \<lparr> iname = ''Mass'', description = ''mass'', needsGreyValue = True \<rparr>,
           type = LINE_BASED, derived = 3 \<rparr>,
         \<lparr> information = \<lparr> iname = ''Size'', description = ''second'', needsGreyValue = True \<rparr>,
           type = IMAGE_BASED, derived = 2 \<rparr>] MeasurementTool_empty) =
     [\<lparr> iname = ''Size'', description = ''first'', needsGreyValue = False \<rparr>,
      \<lparr> iname = ''Mass'', description = ''mass'', needsGreyValue = True \<rparr>]"
proof -
  let ?a = "\<lparr> information = \<lparr> iname = ''Size'', description = ''first'', needsGreyValue = False \<rparr>,
           type = LINE_BASED, derived = (1::nat) \<rparr>"
  let ?b = "\<lparr> information = \<lparr> iname = ''Mass'', description = ''mass'', needsGreyValue = True \<rparr>,
           type = LINE_BASED, derived = (3::nat) \<rparr>"
  let ?c = "\<lparr> information = \<lparr> iname = ''Size'', description = ''second'', needsGreyValue = True \<rparr>,
              type = IMAGE_BASED, derived = (2::nat) \<rparr>"
  have ex: "Exists (iname (information ?c)) (Register_all [?a] MeasurementTool_empty)"
    by (simp add: Exists_def Register_def MeasurementTool_empty_def emplace_def Let_def)
  have c1: "Register ?c (Register_all [?a] MeasurementTool_empty) =
      Register_all [?a] MeasurementTool_empty"
    using Register_keeps_first [of ?c "Register_all [?a] MeasurementTool_empty" "[]" "[]",
        THEN conjunct1] ex
    by blast
  have "MeasurementTool_Features (Register_all [?a, ?b, ?c] MeasurementTool_empty) =
      map information (first_of_each_name [] [?a, ?b, ?c])"
    using Register_keeps_first [of ?c "MeasurementTool_empty" "[?a, ?b, ?c]" "[]"] by blast
  then have c2: "MeasurementTool_Features (Register_all [?a, ?b, ?c] MeasurementTool_empty) =
      [\<lparr> iname = ''Size'', description = ''first'', needsGreyValue = False \<rparr>,
       \<lparr> iname = ''Mass'', description = ''mass'', needsGreyValue = True \<rparr>]"
    by simp
  show ?thesis
    by (intro conjI c1 c2)
qed

subsection \<open>The scan of the feature "Mass"\<close>

lemma length_add_pixel [simp]: "length (add_pixel oi d p) = length d"
  by (simp add: add_pixel_def split: option.splits)

lemma length_foldl_add_pixel [simp]: "length (foldl (add_pixel oi) d ps) = length d"
  by (induction ps arbitrary: d) simp_all

lemma ScanLine_body_cached:
  assumes ran: "\<forall>k i. oi k = Some i \<longrightarrow> i < length d"
    and cache: "objectID \<noteq> 0 \<longrightarrow> data = oi (unat objectID)"
  shows "\<exists>objectID' data'. ScanLine_body oi p (objectID, data, d) =
            Some (objectID', data', add_pixel oi d p) \<and>
          (objectID' \<noteq> 0 \<longrightarrow> data' = oi (unat objectID'))"
proof (cases p)
  case (Pair label grey)
  show ?thesis
  proof (cases "0 < label")
    case False
    with Pair cache show ?thesis
      by (simp add: ScanLine_body_def add_pixel_def)
  next
    case pos: True
    then have nz: "label \<noteq> 0" by auto
    show ?thesis
    proof (cases "label = objectID")
      case True
      with nz cache have "data = oi (unat label)" by simp
      with Pair pos True cache show ?thesis
        by (simp add: ScanLine_body_def add_pixel_def split: option.splits)
    next
      case False
      show ?thesis
      proof (cases "oi (unat label)")
        case None
        with Pair pos False show ?thesis
          by (simp add: ScanLine_body_def add_pixel_def)
      next
        case (Some i)
        with ran have "i < length d" by blast
        with Pair pos False Some show ?thesis
          by (simp add: ScanLine_body_def add_pixel_def)
      qed
    qed
  qed
qed

lemma ScanLine_loop_cached:
  assumes ran: "\<forall>k i. oi k = Some i \<longrightarrow> i < length d"
    and cache: "objectID \<noteq> 0 \<longrightarrow> data = oi (unat objectID)"
  shows "\<exists>objectID' data'. ScanLine_loop oi p rest (objectID, data, d) =
            Some (objectID', data', foldl (add_pixel oi) d (p # rest))"
  using assms
proof (induction rest arbitrary: p objectID data d)
  case Nil
  from ScanLine_body_cached [OF Nil.prems, of p] show ?case
    by auto
next
  case (Cons q rest)
  from ScanLine_body_cached [OF Cons.prems, of p] obtain objectID' data' where
    b: "ScanLine_body oi p (objectID, data, d) = Some (objectID', data', add_pixel oi d p)"
    and c: "objectID' \<noteq> 0 \<longrightarrow> data' = oi (unat objectID')"
    by blast
  have r: "\<forall>k i. oi k = Some i \<longrightarrow> i < length (add_pixel oi d p)"
    using Cons.prems(1) by simp
  from Cons.IH [OF r c, of q] b show ?case
    by auto
qed

lemma ScanLine_effect:
  assumes "\<forall>k i. oi k = Some i \<longrightarrow> i < length (mass_data_' self)" "line \<noteq> []"
  shows "ScanLine line oi self =
     Some (self \<lparr> mass_data_' := foldl (add_pixel oi) (mass_data_' self) line \<rparr>)"
proof -
  from assms(2) obtain p rest where l: "line = p # rest" by (cases line) auto
  have "(0::32 word) \<noteq> 0 \<longrightarrow> None = oi (unat (0::32 word))" by simp
  from ScanLine_loop_cached [OF assms(1) this, of p rest] l show ?thesis
    by (auto simp: ScanLine_def)
qed

lemma ScanLines_effect:
  assumes "\<forall>k i. oi k = Some i \<longrightarrow> i < length (mass_data_' self)" "\<forall>line \<in> set lines. line \<noteq> []"
  shows "ScanLines lines oi self =
     Some (self \<lparr> mass_data_' := foldl (add_pixel oi) (mass_data_' self) (concat lines) \<rparr>)"
  using assms
proof (induction lines arbitrary: self)
  case Nil
  then show ?case by simp
next
  case (Cons line lines)
  let ?s = "self \<lparr> mass_data_' := foldl (add_pixel oi) (mass_data_' self) line \<rparr>"
  from Cons.prems have s: "ScanLine line oi self = Some ?s"
    by (simp add: ScanLine_effect)
  have "\<forall>k i. oi k = Some i \<longrightarrow> i < length (mass_data_' ?s)"
    using Cons.prems(1) by simp
  from Cons.IH [OF this] Cons.prems(2) s show ?case by simp
qed

lemma add_pixel_nth:
  assumes idx: "\<And>k j. oi k = Some j \<longleftrightarrow> j < length objs \<and> objs ! j = k"
    and len: "length d = length objs" and i: "i < length objs"
  shows "add_pixel oi d p ! i =
     (if 0 < fst p \<and> unat (fst p) = objs ! i then d ! i + snd p else d ! i)"
proof (cases "0 < fst p")
  case False
  then show ?thesis by (simp add: add_pixel_def)
next
  case pos: True
  show ?thesis
  proof (cases "oi (unat (fst p))")
    case None
    have "unat (fst p) \<noteq> objs ! i"
    proof
      assume "unat (fst p) = objs ! i"
      with idx [of "unat (fst p)" i] i have "oi (unat (fst p)) = Some i" by simp
      with None show False by simp
    qed
    with pos None show ?thesis by (simp add: add_pixel_def)
  next
    case (Some j)
    with idx [of "unat (fst p)" j] have j: "j < length objs" "objs ! j = unat (fst p)"
      by simp_all
    show ?thesis
    proof (cases "unat (fst p) = objs ! i")
      case True
      with idx [of "unat (fst p)" i] i have "oi (unat (fst p)) = Some i" by simp
      with Some have "j = i" by simp
      with pos Some True len i show ?thesis
        by (simp add: add_pixel_def)
    next
      case False
      with j have "j \<noteq> i" by auto
      with pos Some False show ?thesis
        by (simp add: add_pixel_def)
    qed
  qed
qed

lemma foldl_add_pixel_nth:
  assumes idx: "\<And>k j. oi k = Some j \<longleftrightarrow> j < length objs \<and> objs ! j = k"
    and len: "length d = length objs" and i: "i < length objs"
  shows "foldl (add_pixel oi) d ps ! i =
     foldl (+) (d ! i)
       (map snd (filter (\<lambda>p. 0 < fst p \<and> unat (fst p) = objs ! i) ps))"
  using len
proof (induction ps arbitrary: d)
  case Nil
  then show ?case by simp
next
  case (Cons p ps)
  have "length (add_pixel oi d p) = length objs" using Cons.prems by simp
  from Cons.IH [OF this] add_pixel_nth [OF idx Cons.prems i, of p]
  show ?case by simp
qed

lemma positive_label_filter:
  "filter (\<lambda>p :: 32 word \<times> 'v. 0 < fst p \<and> unat (fst p) = objectID) ps =
     (if objectID = 0 then [] else filter (\<lambda>p. unat (fst p) = objectID) ps)"
proof (cases "objectID = 0")
  case True
  have "\<And>w :: 32 word. \<not> (0 < w \<and> unat w = 0)"
    by (auto simp: unat_eq_0)
  with True show ?thesis by simp
next
  case False
  have "\<And>w :: 32 word. (0 < w \<and> unat w = objectID) = (unat w = objectID)"
    using False by (auto simp: word_gt_0 unat_eq_0)
  with False show ?thesis by simp
qed

text \<open>
  Claim C7. Let the table be built by a sequence of calls, let \<open>Initialize\<close> have returned
  normally for as many objects as the table has, and let every line of the image (each with at
  least one pixel) be presented to \<open>ScanLine\<close> with the table's map from identifiers to row
  indices. Then every call of \<open>ScanLine\<close> returns, there is one accumulator for each row, and
  \<open>Finish\<close> for row \<open>i\<close> assigns to the output the sum of the grey values of the pixels whose
  label is the identifier of row \<open>i\<close>, added up from zero in the order in which the pixels were
  presented. A pixel whose label is 0, or is no identifier of the table, is part of none of
  these sums: in particular the row of an identifier 0, should the table have one, stays zero.
  The sum is a left fold of the addition of the value type, of which no law is used.
\<close>

theorem Mass_is_sum_of_grey:
  "(\<forall>line \<in> set lines. line \<noteq> []) \<and>
   Initialize grey_IsScalar label_Dimensionality
     (NumberOfObjects (run cs Measurement_init :: ('u::default, 'v::{zero,plus}) Measurement))
     self0 = (Inr (info :: 'u ValueInformationArray), self1) \<longrightarrow>
   (\<exists>self2.
      ScanLines lines (objectIndices_' (run cs Measurement_init :: ('u, 'v) Measurement)) self1 =
        Some self2 \<and>
      length (mass_data_' self2) =
        NumberOfObjects (run cs Measurement_init :: ('u, 'v) Measurement) \<and>
      (\<forall>i < NumberOfObjects (run cs Measurement_init :: ('u, 'v) Measurement).
         Finish i self2 =
           Some (if Objects (run cs Measurement_init :: ('u, 'v) Measurement) ! i = 0 then 0
                 else mass_of (Objects (run cs Measurement_init :: ('u, 'v) Measurement) ! i)
                        (concat lines :: (32 word \<times> 'v) list))))"
proof (intro impI)
  let ?t = "run cs Measurement_init :: ('u, 'v) Measurement"
  let ?oi = "objectIndices_' ?t"
  let ?n = "length (objects_' ?t)"
  assume "(\<forall>line \<in> set lines. line \<noteq> []) \<and>
     Initialize grey_IsScalar label_Dimensionality (NumberOfObjects ?t) self0 = (Inr info, self1)"
  then have ne: "\<forall>line \<in> set lines. line \<noteq> []"
    and init: "Initialize grey_IsScalar label_Dimensionality (NumberOfObjects ?t) self0 =
        (Inr info, self1)"
    by simp_all
  from init have d1: "mass_data_' self1 = replicate ?n 0"
    by (auto simp: Initialize_def resize_def NumberOfObjects_def split: if_splits)
  have inv: "table_inv ?t" by (rule table_inv_reachable)
  have idx: "\<And>k j. ?oi k = Some j \<longleftrightarrow> j < ?n \<and> objects_' ?t ! j = k"
    by (rule table_inv_objectIndices [OF inv])
  then have ran: "\<forall>k i. ?oi k = Some i \<longrightarrow> i < length (mass_data_' self1)"
    by (simp add: d1)
  let ?d = "foldl (add_pixel ?oi) (mass_data_' self1) (concat lines)"
  let ?s = "self1 \<lparr> mass_data_' := ?d \<rparr>"
  have scan: "ScanLines lines ?oi self1 = Some ?s"
    by (rule ScanLines_effect [OF ran ne])
  have len: "length (mass_data_' ?s) = NumberOfObjects ?t"
    by (simp add: d1 NumberOfObjects_def)
  have fin: "\<forall>i < NumberOfObjects ?t.
      Finish i ?s = Some (if Objects ?t ! i = 0 then 0 else mass_of (Objects ?t ! i) (concat lines))"
  proof (intro allI impI)
    fix i assume "i < NumberOfObjects ?t"
    then have i: "i < ?n" by (simp add: NumberOfObjects_def)
    have l1: "length (mass_data_' self1) = ?n" by (simp add: d1)
    have "?d ! i = foldl (+) (mass_data_' self1 ! i)
        (map snd (filter (\<lambda>p. 0 < fst p \<and> unat (fst p) = objects_' ?t ! i) (concat lines)))"
      by (rule foldl_add_pixel_nth [OF idx l1 i])
    also have "mass_data_' self1 ! i = 0" using i by (simp add: d1)
    finally have "?d ! i =
        (if objects_' ?t ! i = 0 then 0 else mass_of (objects_' ?t ! i) (concat lines))"
      by (simp add: positive_label_filter mass_of_def)
    with i show "Finish i ?s =
        Some (if Objects ?t ! i = 0 then 0 else mass_of (Objects ?t ! i) (concat lines))"
      by (simp add: Finish_def d1 Objects_def)
  qed
  from scan len fin
  show "\<exists>self2. ScanLines lines ?oi self1 = Some self2 \<and>
      length (mass_data_' self2) = NumberOfObjects ?t \<and>
      (\<forall>i < NumberOfObjects ?t.
         Finish i self2 =
           Some (if Objects ?t ! i = 0 then 0 else mass_of (Objects ?t ! i) (concat lines)))"
    by blast
qed

theorem Mass_is_sum_of_grey_witness:
  "(\<exists>self2.
      ScanLines
        [[(0, 0), (1, 4), (1, 2)], [(0, 0), (1, 6), (2, 8)], [(2, 3), (2, 5), (0, 0)]]
        (objectIndices_'
           (run [CallAddObjectIDs [1, 2],
                 CallAddFeature ''Mass'' [\<lparr> vname = ''Mass'', units = () \<rparr>]]
              (Measurement_init :: (unit, int) Measurement)))
        \<lparr> nD_' = 2, mass_data_' = [0, 0 :: int] \<rparr> = Some self2 \<and>
      Finish 0 self2 = Some 12 \<and> Finish 1 self2 = Some 16)"
proof -
  let ?cs = "[CallAddObjectIDs [1, 2],
                 CallAddFeature ''Mass'' [\<lparr> vname = ''Mass'', units = () \<rparr>]] :: (unit, int) call list"
  let ?t = "run ?cs (Measurement_init :: (unit, int) Measurement)"
  let ?lines = "[[(0, 0), (1, 4), (1, 2)], [(0, 0), (1, 6), (2, 8)], [(2, 3), (2, 5), (0, 0)]]
      :: (32 word \<times> int) list list"
  let ?self0 = "\<lparr> nD_' = 0, mass_data_' = ([] :: int list) \<rparr>"
  let ?self1 = "\<lparr> nD_' = 2, mass_data_' = [0, 0 :: int] \<rparr>"
  have t: "Objects ?t = [1, 2]" "NumberOfObjects ?t = 2"
    by (simp_all add: Measurement_init_def AddObjectIDs_def AddFeature_def AddFeature_'_def
          IsForged_def ObjectExists_def FeatureExists_def emplace_def Let_def Objects_def
          NumberOfObjects_def)
  have ne: "\<forall>line \<in> set ?lines. line \<noteq> []" by simp
  have init: "Initialize True 2 (NumberOfObjects ?t) ?self0 =
      (Inr [\<lparr> vname = ''Mass'', units = () \<rparr>], ?self1)"
    unfolding t by (simp add: Initialize_def resize_def numeral_2_eq_2)
  from Mass_is_sum_of_grey [of ?lines True 2 ?cs ?self0 "[\<lparr> vname = ''Mass'', units = () \<rparr>]" ?self1]
    ne init
  obtain self2 where s: "ScanLines ?lines (objectIndices_' ?t) ?self1 = Some self2"
    and f: "\<forall>i < NumberOfObjects ?t. Finish i self2 =
           Some (if Objects ?t ! i = 0 then 0 else mass_of (Objects ?t ! i) (concat ?lines))"
    by blast
  from f [rule_format, of 0] have f0: "Finish 0 self2 = Some 12"
    unfolding t by (simp add: mass_of_def)
  from f [rule_format, of 1] have f1: "Finish 1 self2 = Some 16"
    unfolding t by (simp add: mass_of_def)
  from s f0 f1 show ?thesis by blast
qed

subsection \<open>Adding objects\<close>

text \<open>
  Claim C8. \<open>AddObjectIDs( objectIDs )\<close> throws "Measurement object is forged." on a forged
  table, and on a table that is not forged it throws "Object already present: ..." when one of
  the identifiers is already in the table. It returns normally exactly when the table is not
  forged, the identifiers are pairwise different and none of them is in the table; then
  \<open>Objects()\<close> is the former list followed by the given identifiers in the given order. On a
  table built by a sequence of calls the map from identifiers to row indices is then injective,
  maps the identifier of each row to the index of that row, and has the identifiers of
  \<open>Objects()\<close> as its keys.
\<close>

theorem AddObjectIDs_outcomes:
  "(IsForged m \<longrightarrow> AddObjectIDs objectIDs m = (Inl MeasurementObjectIsForged, m)) \<and>
   (\<not> IsForged m \<and> (\<exists>x \<in> set objectIDs. ObjectExists x m) \<longrightarrow>
      (\<exists>x \<in> set objectIDs. fst (AddObjectIDs objectIDs m) = Inl (ObjectAlreadyPresent x))) \<and>
   (fst (AddObjectIDs objectIDs m) = Inr ()) =
      (\<not> IsForged m \<and> distinct objectIDs \<and> (\<forall>x \<in> set objectIDs. \<not> ObjectExists x m)) \<and>
   (fst (AddObjectIDs objectIDs m) = Inr () \<longrightarrow>
      Objects (snd (AddObjectIDs objectIDs m)) = Objects m @ objectIDs) \<and>
   (fst (AddObjectIDs objectIDs (run cs Measurement_init :: ('u, 'v::zero) Measurement)) = Inr () \<longrightarrow>
      (\<forall>i < length (Objects (snd (AddObjectIDs objectIDs
              (run cs Measurement_init :: ('u, 'v) Measurement)))).
         ObjectIndex
           (Objects (snd (AddObjectIDs objectIDs
              (run cs Measurement_init :: ('u, 'v) Measurement))) ! i)
           (snd (AddObjectIDs objectIDs (run cs Measurement_init :: ('u, 'v) Measurement))) =
         Inr i) \<and>
      inj_on
        (objectIndices_' (snd (AddObjectIDs objectIDs
            (run cs Measurement_init :: ('u, 'v) Measurement))))
        (dom (objectIndices_' (snd (AddObjectIDs objectIDs
            (run cs Measurement_init :: ('u, 'v) Measurement))))) \<and>
      dom (objectIndices_' (snd (AddObjectIDs objectIDs
            (run cs Measurement_init :: ('u, 'v) Measurement)))) =
        set (Objects (snd (AddObjectIDs objectIDs
            (run cs Measurement_init :: ('u, 'v) Measurement)))))"
proof (intro conjI impI)
  assume "IsForged m"
  then show "AddObjectIDs objectIDs m = (Inl MeasurementObjectIsForged, m)"
    by (simp add: AddObjectIDs_def)
next
  assume "\<not> IsForged m \<and> (\<exists>x \<in> set objectIDs. ObjectExists x m)"
  then have nf: "\<not> IsForged m" and ex: "\<exists>x \<in> set objectIDs. ObjectExists x m" by simp_all
  from AddObjectIDs_loop_present_fails [OF ex] nf
  show "\<exists>x \<in> set objectIDs. fst (AddObjectIDs objectIDs m) = Inl (ObjectAlreadyPresent x)"
    by (simp add: AddObjectIDs_def)
next
  show "(fst (AddObjectIDs objectIDs m) = Inr ()) =
      (\<not> IsForged m \<and> distinct objectIDs \<and> (\<forall>x \<in> set objectIDs. \<not> ObjectExists x m))"
    by (cases "IsForged m") (simp_all add: AddObjectIDs_def AddObjectIDs_loop_success_iff)
next
  assume "fst (AddObjectIDs objectIDs m) = Inr ()"
  then show "Objects (snd (AddObjectIDs objectIDs m)) = Objects m @ objectIDs"
    by (cases "IsForged m")
       (simp_all add: AddObjectIDs_def AddObjectIDs_loop_objects Objects_def)
next
  let ?m = "run cs Measurement_init :: ('u, 'v) Measurement"
  let ?m' = "snd (AddObjectIDs objectIDs ?m)"
  have inv: "table_inv ?m'"
    by (rule table_inv_AddObjectIDs [OF table_inv_reachable])
  show "\<forall>i < length (Objects ?m'). ObjectIndex (Objects ?m' ! i) ?m' = Inr i"
    using table_inv_index_of_object [OF inv] by (simp add: Objects_def)
  show "inj_on (objectIndices_' ?m') (dom (objectIndices_' ?m'))"
    by (rule table_inv_objectIndices_inj [OF inv])
  show "dom (objectIndices_' ?m') = set (Objects ?m')"
    using table_inv_dom_objectIndices [OF inv] by (simp add: Objects_def)
qed

theorem AddObjectIDs_outcomes_witness:
  "AddObjectIDs [3]
      (run [CallAddObjectIDs [1, 2],
            CallAddFeature ''Size'' [\<lparr> vname = ''Size'', units = () \<rparr>],
            CallForge] (Measurement_init :: (unit, int) Measurement)) =
     (Inl MeasurementObjectIsForged,
      run [CallAddObjectIDs [1, 2],
            CallAddFeature ''Size'' [\<lparr> vname = ''Size'', units = () \<rparr>],
            CallForge] Measurement_init) \<and>
   (\<exists>x. fst (AddObjectIDs [3, 2]
      (run [CallAddObjectIDs [1, 2],
            CallAddFeature ''Size'' [\<lparr> vname = ''Size'', units = () \<rparr>]]
         (Measurement_init :: (unit, int) Measurement))) = Inl (ObjectAlreadyPresent x)) \<and>
   fst (AddObjectIDs [3, 4]
      (run [CallAddObjectIDs [1, 2],
            CallAddFeature ''Size'' [\<lparr> vname = ''Size'', units = () \<rparr>]]
         (Measurement_init :: (unit, int) Measurement))) = Inr () \<and>
   Objects (snd (AddObjectIDs [3, 4]
      (run [CallAddObjectIDs [1, 2],
            CallAddFeature ''Size'' [\<lparr> vname = ''Size'', units = () \<rparr>]]
         (Measurement_init :: (unit, int) Measurement)))) = [1, 2, 3, 4] \<and>
   ObjectIndex 4 (snd (AddObjectIDs [3, 4]
      (run [CallAddObjectIDs [1, 2],
            CallAddFeature ''Size'' [\<lparr> vname = ''Size'', units = () \<rparr>]]
         (Measurement_init :: (unit, int) Measurement)))) = Inr 3"
proof -
  let ?cs = "[CallAddObjectIDs [1, 2],
            CallAddFeature ''Size'' [\<lparr> vname = ''Size'', units = () \<rparr>]] :: (unit, int) call list"
  let ?u = "run ?cs (Measurement_init :: (unit, int) Measurement)"
  let ?f = "run [CallAddObjectIDs [1, 2],
            CallAddFeature ''Size'' [\<lparr> vname = ''Size'', units = () \<rparr>],
            CallForge] (Measurement_init :: (unit, int) Measurement)"
  have f: "IsForged ?f"
    unfolding sample_table by (simp add: IsForged_def)
  have u: "\<not> IsForged ?u" "ObjectExists 2 ?u" "\<not> ObjectExists 3 ?u" "\<not> ObjectExists 4 ?u"
    "Objects ?u = [1, 2]"
    unfolding sample_unforged by (simp_all add: IsForged_def ObjectExists_def Objects_def)
  note t = AddObjectIDs_outcomes [where 'u = unit and 'v = int]
  have c1: "AddObjectIDs [3] ?f = (Inl MeasurementObjectIsForged, ?f)"
    using t [of ?f "[3]" "[]", THEN conjunct1] f by blast
  have "\<exists>x \<in> set [3, 2]. fst (AddObjectIDs [3, 2] ?u) = Inl (ObjectAlreadyPresent x)"
    using t [of ?u "[3, 2]" "[]", THEN conjunct2, THEN conjunct1] u(1,2)
    by (simp del: run.simps)
  then have c2: "\<exists>x. fst (AddObjectIDs [3, 2] ?u) = Inl (ObjectAlreadyPresent x)"
    by blast
  have c3: "fst (AddObjectIDs [3, 4] ?u) = Inr ()"
    using t [of ?u "[3, 4]" "[]", THEN conjunct2, THEN conjunct2, THEN conjunct1] u(1,3,4)
    by (simp del: run.simps)
  have c4: "Objects (snd (AddObjectIDs [3, 4] ?u)) = [1, 2, 3, 4]"
    using t [of ?u "[3, 4]" "[]", THEN conjunct2, THEN conjunct2, THEN conjunct2,
        THEN conjunct1] c3 u(5)
    by (simp del: run.simps)
  have c5a: "\<forall>i < length (Objects (snd (AddObjectIDs [3, 4] ?u))).
         ObjectIndex (Objects (snd (AddObjectIDs [3, 4] ?u)) ! i)
           (snd (AddObjectIDs [3, 4] ?u)) = Inr i"
    using t [of ?u "[3, 4]" ?cs, THEN conjunct2, THEN conjunct2, THEN conjunct2,
        THEN conjunct2] c3
    by blast
  have c5: "ObjectIndex 4 (snd (AddObjectIDs [3, 4] ?u)) = Inr 3"
    using c5a [rule_format, of 3] unfolding c4 by (simp del: run.simps)
  show ?thesis
    by (intro conjI c1 c2 c3 c4 c5)
qed



subsection \<open>Ensuring a feature\<close>

text \<open>
  Claim C10. On a table built by a sequence of calls and not forged, \<open>EnsureFeature( name,
  values )\<close> with a name that is present returns normally and leaves the table as it is, whatever
  \<open>values\<close> is, the empty array included. On a table that is not forged, with a name that is
  not present and an empty \<open>values\<close>, it throws what \<open>AddFeature\<close> throws and leaves the
  table as it is: "No feature name given." for the empty name, "A feature needs at least one
  value." otherwise.
\<close>

theorem EnsureFeature_present_or_empty:
  "(\<not> IsForged (run cs Measurement_init :: ('u, 'v::zero) Measurement) \<and>
    FeatureExists name (run cs Measurement_init :: ('u, 'v) Measurement) \<longrightarrow>
      EnsureFeature name values (run cs Measurement_init :: ('u, 'v) Measurement) =
        (Inr (), run cs Measurement_init) \<and>
      EnsureFeature name [] (run cs Measurement_init :: ('u, 'v) Measurement) =
        (Inr (), run cs Measurement_init)) \<and>
   (\<not> IsForged m \<and> \<not> FeatureExists name m \<longrightarrow>
      EnsureFeature name [] m = AddFeature name [] m \<and>
      EnsureFeature name [] m =
        (Inl (if name = [] then NoFeatureNameGiven else FeatureNeedsAtLeastOneValue), m))"
proof (intro conjI impI)
  let ?m = "run cs Measurement_init :: ('u, 'v) Measurement"
  assume "\<not> IsForged ?m \<and> FeatureExists name ?m"
  then have a: "\<not> IsForged ?m" "FeatureExists name ?m" by simp_all
  have ne: "name \<noteq> []"
    by (rule table_inv_present_name_nonempty [OF table_inv_reachable a(2)])
  with a show "EnsureFeature name values ?m = (Inr (), ?m)"
    by (simp add: EnsureFeature_def)
  from ne a show "EnsureFeature name [] ?m = (Inr (), ?m)"
    by (simp add: EnsureFeature_def)
next
  assume "\<not> IsForged m \<and> \<not> FeatureExists name m"
  then have a: "\<not> IsForged m" "\<not> FeatureExists name m" by simp_all
  then show "EnsureFeature name [] m = AddFeature name [] m"
    by (simp add: EnsureFeature_def AddFeature_def)
  from a show "EnsureFeature name [] m =
        (Inl (if name = [] then NoFeatureNameGiven else FeatureNeedsAtLeastOneValue), m)"
    by (simp add: EnsureFeature_def)
qed

theorem EnsureFeature_present_or_empty_witness:
  "EnsureFeature ''Size'' []
      (run [CallAddObjectIDs [1, 2],
            CallAddFeature ''Size'' [\<lparr> vname = ''Size'', units = () \<rparr>]]
         (Measurement_init :: (unit, int) Measurement)) =
     (Inr (),
      run [CallAddObjectIDs [1, 2],
           CallAddFeature ''Size'' [\<lparr> vname = ''Size'', units = () \<rparr>]] Measurement_init) \<and>
   EnsureFeature ''Mass'' [] (Measurement_init :: (unit, int) Measurement) =
     AddFeature ''Mass'' [] Measurement_init \<and>
   EnsureFeature ''Mass'' [] (Measurement_init :: (unit, int) Measurement) =
     (Inl FeatureNeedsAtLeastOneValue, Measurement_init)"
proof -
  let ?cs = "[CallAddObjectIDs [1, 2],
            CallAddFeature ''Size'' [\<lparr> vname = ''Size'', units = () \<rparr>]] :: (unit, int) call list"
  let ?u = "run ?cs (Measurement_init :: (unit, int) Measurement)"
  let ?e = "Measurement_init :: (unit, int) Measurement"
  have u: "\<not> IsForged ?u" "FeatureExists ''Size'' ?u"
    unfolding sample_unforged by (simp_all add: IsForged_def FeatureExists_def)
  have e: "\<not> IsForged ?e" "\<not> FeatureExists ''Mass'' ?e"
    by (simp_all add: Measurement_init_def IsForged_def FeatureExists_def)
  note t = EnsureFeature_present_or_empty [where 'u = unit and 'v = int]
  have c1: "EnsureFeature ''Size'' [] ?u = (Inr (), ?u)"
    using t [of ?cs "''Size''" "[]" ?e, THEN conjunct1] u by blast
  have c2: "EnsureFeature ''Mass'' [] ?e = AddFeature ''Mass'' [] ?e"
    using t [of ?cs "''Mass''" "[]" ?e, THEN conjunct2] e by blast
  have "EnsureFeature ''Mass'' [] ?e =
      (Inl (if ''Mass'' = [] then NoFeatureNameGiven else FeatureNeedsAtLeastOneValue), ?e)"
    using t [of ?cs "''Mass''" "[]" ?e, THEN conjunct2] e by blast
  then have c3: "EnsureFeature ''Mass'' [] ?e = (Inl FeatureNeedsAtLeastOneValue, ?e)"
    by simp
  show ?thesis
    by (intro conjI c1 c2 c3)
qed

end
